theory Spec2Isabelle
  imports Complex_Main
begin

section \<open>The conversation workflow of \<^verbatim>\<open>backend/agent.py\<close>\<close>

text \<open>
  The four workflow nodes \<^verbatim>\<open>intent_node\<close>, \<^verbatim>\<open>geo_query_node\<close>,
  \<^verbatim>\<open>location_helper_node\<close> and \<^verbatim>\<open>flood_vulnerability_node\<close>, the producer
  \<^verbatim>\<open>flood_vulnerability\<close> and the graph that chains them are embedded as HOL functions.

  Conventions of the embedding:
  \<^item> A Python \<^verbatim>\<open>str\<close> is a \<^typ>\<open>string\<close>; a \<^typ>\<open>char\<close> stands for the code point of
    the same number, so the texts covered are those of code points below 256.
  \<^item> A Python \<^verbatim>\<open>float\<close> is a \<^typ>\<open>real\<close>: the code only compares floats and hands
    them on, and comparison of floats is comparison of the numbers they denote. The
    decimal literals of the source are read at their decimal value. Rendering a float as
    text (\<^verbatim>\<open>:.4f\<close>, \<^verbatim>\<open>:.2f\<close>, \<^verbatim>\<open>str\<close>) is a parameter of the model.
  \<^item> The outcome of every external call (completion provider, geocoder, geospatial
    platform) is a parameter: \<open>Inl e\<close> when the call raises \<open>e\<close>, \<open>Inr v\<close> when it
    returns \<open>v\<close>.
  \<^item> \<^verbatim>\<open>print\<close> and \<^verbatim>\<open>logger\<close> calls write to the console only and are left out.
\<close>

subsection \<open>Python string operations\<close>

text \<open>\<^verbatim>\<open>str.isspace\<close> on the code points below 256, as \<^verbatim>\<open>str.strip()\<close> uses it.\<close>

definition is_space :: "char \<Rightarrow> bool" where
  "is_space c = (c \<in> set [CHR 0x09, CHR 0x0A, CHR 0x0B, CHR 0x0C, CHR 0x0D,
                            CHR 0x1C, CHR 0x1D, CHR 0x1E, CHR 0x1F, CHR 0x20,
                            CHR 0x85, CHR 0xA0])"

definition strip :: "string \<Rightarrow> string" where
  "strip s = rev (dropWhile is_space (rev (dropWhile is_space s)))"

text \<open>\<^verbatim>\<open>str.lower\<close>: the letters A-Z and the upper-case letters of Latin-1 move up by 32.\<close>

definition lower_char :: "char \<Rightarrow> char" where
  "lower_char c =
     (let n = (of_char c :: nat)
      in if 65 \<le> n \<and> n \<le> 90 then char_of (n + 32)
         else if 192 \<le> n \<and> n \<le> 222 \<and> n \<noteq> 215 then char_of (n + 32)
         else c)"

definition lower :: "string \<Rightarrow> string" where
  "lower s = map lower_char s"

definition startswith :: "string \<Rightarrow> string \<Rightarrow> bool" where
  "startswith s p = (take (length p) s = p)"

text \<open>\<^verbatim>\<open>sub in s\<close> for strings: \<open>sub\<close> occurs in \<open>s\<close> as a contiguous run.\<close>

fun contains :: "string \<Rightarrow> string \<Rightarrow> bool" where
  "contains [] sub = (sub = [])"
| "contains (c # cs) sub = (if startswith (c # cs) sub then True else contains cs sub)"

text \<open>\<^verbatim>\<open>s.split(sep)\<close> for a one-character separator: empty pieces are kept.\<close>

fun split :: "string \<Rightarrow> char \<Rightarrow> string list" where
  "split [] sep = ['''']"
| "split (c # cs) sep =
     (if c = sep then [] # split cs sep
      else (case split cs sep of
              [] \<Rightarrow> [c # '''']
            | piece # pieces \<Rightarrow> (c # piece) # pieces))"

text \<open>\<^verbatim>\<open>s.split(sep, 1)\<close>: at most one cut, at the first separator.\<close>

definition split1 :: "string \<Rightarrow> char \<Rightarrow> string list" where
  "split1 s sep =
     (if sep \<in> set s
      then [takeWhile (\<lambda>c. c \<noteq> sep) s, tl (dropWhile (\<lambda>c. c \<noteq> sep) s)]
      else [s])"

subsection \<open>Exceptions\<close>

datatype exn =
    KeyError string
  | IndexError
  | TypeError string
  | AttributeError string
  | External string

text \<open>\<^verbatim>\<open>str(e)\<close>; a \<^verbatim>\<open>KeyError\<close> shows its key in quotes.\<close>

fun str_exn :: "exn \<Rightarrow> string" where
  "str_exn (KeyError k) = [CHR 0x27] @ k @ [CHR 0x27]"
| "str_exn IndexError = ''list index out of range''"
| "str_exn (TypeError m) = m"
| "str_exn (AttributeError m) = m"
| "str_exn (External m) = m"

text \<open>\<^verbatim>\<open>xs[i]\<close> on a list.\<close>

definition item :: "'a list \<Rightarrow> nat \<Rightarrow> exn + 'a" where
  "item xs i = (if i < length xs then Inr (xs ! i) else Inl IndexError)"

subsection \<open>Risk tiers of \<^verbatim>\<open>flood_vulnerability\<close>\<close>

text \<open>
  A value of the zonal statistics dictionary: a number, \<^verbatim>\<open>None\<close>, or a value of
  another Python type, kept by the name of that type.
\<close>

datatype stat = Num real | NoData | Other string

definition high_recommendation :: string where
  "high_recommendation =
     ''This area has high flood risk. Avoid construction and consider flood mitigation measures.''"

definition moderate_recommendation :: string where
  "moderate_recommendation =
     ''This area has moderate flood risk. Consider flood-resistant construction.''"

definition low_recommendation :: string where
  "low_recommendation =
     ''This area has low flood risk, but stay informed about local conditions.''"

text \<open>
  Lines 210-219: the \<^verbatim>\<open>if flood_value > 0.5 / elif flood_value > 0.2 / else\<close> chain,
  giving \<^verbatim>\<open>(risk_level, recommendation)\<close>.
\<close>

definition risk_level :: "real \<Rightarrow> string \<times> string" where
  "risk_level flood_value =
     (if flood_value > 0.5 then (''High'', high_recommendation)
      else if flood_value > 0.2 then (''Moderate'', moderate_recommendation)
      else (''Low'', low_recommendation))"

subsection \<open>The conversation turn state\<close>

text \<open>
  \<^verbatim>\<open>AgentState\<close> is a dictionary: a key is missing (\<open>Absent\<close>), holds
  \<^verbatim>\<open>None\<close> (\<open>Null\<close>) or holds a value of the declared type. The key
  \<^verbatim>\<open>map_data\<close>, which the last node writes and \<^verbatim>\<open>AgentState\<close> does not
  declare, is a field of the dictionaries the nodes take and return.
\<close>

datatype 'a field = Absent | Null | Val 'a

text \<open>\<^verbatim>\<open>d[key]\<close> and \<^verbatim>\<open>d.get(key)\<close>; \<^verbatim>\<open>None\<close> is \<open>None\<close>.\<close>

fun subscript :: "'a field \<Rightarrow> string \<Rightarrow> exn + 'a option" where
  "subscript Absent key = Inl (KeyError key)"
| "subscript Null key = Inr None"
| "subscript (Val v) key = Inr (Some v)"

fun get :: "'a field \<Rightarrow> 'a option" where
  "get Absent = None"
| "get Null = None"
| "get (Val v) = Some v"

text \<open>\<^verbatim>\<open>d.get(key, default)\<close>: the default stands in for a missing key only.\<close>

fun get_default :: "'a field \<Rightarrow> 'a \<Rightarrow> 'a option" where
  "get_default Absent d = Some d"
| "get_default Null d = None"
| "get_default (Val v) d = Some v"

text \<open>Storing an optional Python value under a key.\<close>

fun stored :: "'a option \<Rightarrow> 'a field" where
  "stored None = Null"
| "stored (Some v) = Val v"

text \<open>
  The map object of the geospatial library, as far as the workflow reads it: the list
  \<^verbatim>\<open>layers\<close>, each layer with its \<^verbatim>\<open>url\<close> attribute when it has one.
\<close>

type_synonym geemap_Map = "string option list"

text \<open>The dictionaries of the map payload; an optional key is an \<open>option\<close>.\<close>

record layer_entry =
  l_name :: string
  l_url :: string
  l_attribution :: string
  l_visible :: bool
  l_type :: string
  l_minZoom :: "int option"
  l_maxZoom :: "int option"
  l_opacity :: "real option"

record marker =
  position :: "real \<times> real"
  popup :: "string option"
  color :: "string option"

record map_payload =
  center :: "real \<times> real"
  zoom :: int
  md_analysis :: "string option"
  layers :: "layer_entry list option"
  markers :: "marker list option"
  error :: "string option"

record AgentState =
  input :: "string field"
  intent :: "string field"
  location :: "string field"
  analysis :: "string field"
  lat :: "real field"
  lon :: "real field"
  final_result :: "string field"
  map_object :: "geemap_Map field"
  map_data :: "map_payload field"

subsection \<open>External collaborators\<close>

text \<open>
  What a chain returns: a dictionary with the key \<^verbatim>\<open>text\<close>, an object with the
  attribute \<^verbatim>\<open>content\<close>, or anything else; each with its \<^verbatim>\<open>str\<close> rendering.
\<close>

datatype llm_result =
    Dict_text "string option" string
  | Message "string option" string
  | Plain string

text \<open>
  The collaborators of one turn. \<open>new_map\<close> is lines 158-168 (map, base map, point
  and buffer), \<open>add_layers\<close> lines 172-198 (datasets and the three layers; when it
  raises, the map as it is by then), \<open>reduce_region\<close> lines 201-205,
  \<open>center_object\<close> line 240 and \<open>add_marker\<close> line 247. \<open>fixed n\<close> renders a float
  with \<open>n\<close> decimals and \<open>repr\<close> renders it as \<^verbatim>\<open>str\<close> does.
\<close>

record env =
  intent_chain :: "string option \<Rightarrow> exn + llm_result"
  geo_chain :: "string option \<Rightarrow> exn + llm_result"
  geocode :: "string \<Rightarrow> exn + (real \<times> real) option"
  new_map :: "real \<Rightarrow> real \<Rightarrow> exn + geemap_Map"
  add_layers :: "geemap_Map \<Rightarrow> (exn \<times> geemap_Map) + geemap_Map"
  reduce_region :: "real \<Rightarrow> real \<Rightarrow> exn + (string \<rightharpoonup> stat)"
  center_object :: "geemap_Map \<Rightarrow> exn + geemap_Map"
  add_marker :: "geemap_Map \<Rightarrow> exn + geemap_Map"
  fixed :: "nat \<Rightarrow> real \<Rightarrow> string"
  repr :: "real \<Rightarrow> string"

text \<open>The external calls a node makes, in order, are returned beside its result.\<close>

datatype call =
    Intent_chain "string option"
  | Geo_chain "string option"
  | Geocode string
  | Flood_vulnerability real real "string option"

type_synonym node_result = "call list \<times> (exn + AgentState)"

subsection \<open>\<^verbatim>\<open>intent_node\<close>\<close>

text \<open>Lines 65-66: the reply as text, stripped; \<^verbatim>\<open>None\<close> and the empty text give the empty text.\<close>

definition intent_text :: "llm_result \<Rightarrow> string" where
  "intent_text result =
     (let text = (case result of
                    Dict_text t s \<Rightarrow> t
                  | Message c s \<Rightarrow> Some s
                  | Plain s \<Rightarrow> Some s)
      in case text of
           None \<Rightarrow> []
         | Some t \<Rightarrow> if t \<noteq> [] then strip t else [])"

definition intent_node :: "env \<Rightarrow> AgentState \<Rightarrow> node_result" where
  "intent_node E state =
     (case subscript (input state) ''input'' of
        Inl e \<Rightarrow> ([], Inl e)
      | Inr inp \<Rightarrow>
          (case intent_chain E inp of
             Inl e \<Rightarrow> ([Intent_chain inp], Inl e)
           | Inr result \<Rightarrow>
               (let text = intent_text result;
                    intent' = (if text \<in> set [''normal'', ''query''] then Val text else Null)
                in ([Intent_chain inp], Inr (state\<lparr>intent := intent'\<rparr>)))))"

subsection \<open>\<^verbatim>\<open>geo_query_node\<close>\<close>

text \<open>Lines 90-91.\<close>

definition answer_text :: "llm_result \<Rightarrow> string" where
  "answer_text result =
     (let answer = (case result of
                      Dict_text t s \<Rightarrow> Some s
                    | Message c s \<Rightarrow> c
                    | Plain s \<Rightarrow> Some s)
      in case answer of
           None \<Rightarrow> []
         | Some a \<Rightarrow> if a \<noteq> [] then strip a else [])"

text \<open>\<^verbatim>\<open>not location\<close> for an optional text: \<^verbatim>\<open>None\<close> and the empty text are false.\<close>

fun not_text :: "string option \<Rightarrow> bool" where
  "not_text None = True"
| "not_text (Some s) = (s = [])"

text \<open>
  Lines 109-116, the body of the loop: one line of the reply, applied to the pair
  \<^verbatim>\<open>(location, analysis)\<close>.
\<close>

definition scan_line ::
  "string option \<times> string option \<Rightarrow> string \<Rightarrow> exn + (string option \<times> string option)" where
  "scan_line la raw =
     (let line = strip raw in
      if startswith (lower line) ''location:'' then
        (case item (split1 line (CHR '':'')) 1 of
           Inl e \<Rightarrow> Inl e
         | Inr rest \<Rightarrow> Inr (Some (strip rest), snd la))
      else if startswith (lower line) ''analysis:'' then
        (case item (split1 line (CHR '':'')) 1 of
           Inl e \<Rightarrow> Inl e
         | Inr rest \<Rightarrow> Inr (fst la, Some (strip rest)))
      else if not_text (fst la) \<and> line \<noteq> [] \<and>
              \<not> list_ex (\<lambda>x. contains (lower line) x) [''analysis:'', ''reply:'']
        then Inr (Some line, snd la)
      else Inr la)"

text \<open>Lines 108-116: the loop over the lines.\<close>

fun scan_lines ::
  "string option \<times> string option \<Rightarrow> string list \<Rightarrow> exn + (string option \<times> string option)" where
  "scan_lines la [] = Inr la"
| "scan_lines la (raw # raws) =
     (case scan_line la raw of
        Inl e \<Rightarrow> Inl e
      | Inr la' \<Rightarrow> scan_lines la' raws)"

text \<open>Lines 104-116: both start as \<^verbatim>\<open>None\<close>; the answer is split at newlines.\<close>

definition parse_answer :: "string \<Rightarrow> exn + (string option \<times> string option)" where
  "parse_answer answer = scan_lines (None, None) (split answer (CHR ''\<newline>''))"

definition geo_query_node :: "env \<Rightarrow> AgentState \<Rightarrow> node_result" where
  "geo_query_node E state =
     (case subscript (input state) ''input'' of
        Inl e \<Rightarrow> ([], Inl e)
      | Inr inp \<Rightarrow>
          (case geo_chain E inp of
             Inl e \<Rightarrow> ([Geo_chain inp], Inl e)
           | Inr result \<Rightarrow>
               (let answer = answer_text result in
                if contains answer ''ASK_LOCATION'' then ([Geo_chain inp], Inr state)
                else if contains answer ''ASK_ANALYSIS'' then ([Geo_chain inp], Inr state)
                else (case parse_answer answer of
                        Inl e \<Rightarrow> ([Geo_chain inp], Inl e)
                      | Inr (location', analysis') \<Rightarrow>
                          ([Geo_chain inp],
                           Inr (state\<lparr>location := stored location',
                                       analysis := stored analysis'\<rparr>))))))"

subsection \<open>\<^verbatim>\<open>location_helper_node\<close>\<close>

text \<open>
  The \<^verbatim>\<open>try\<close> block catches whatever the geocoder raises and returns the state it
  was given.
\<close>

definition location_helper_node :: "env \<Rightarrow> AgentState \<Rightarrow> node_result" where
  "location_helper_node E state =
     (if not_text (get (location state)) then ([], Inr state)
      else (case get (location state) of
              None \<Rightarrow> ([], Inr state)
            | Some name \<Rightarrow>
                (case geocode E (name @ '', India'') of
                   Inl e \<Rightarrow> ([Geocode (name @ '', India'')], Inr state)
                 | Inr None \<Rightarrow> ([Geocode (name @ '', India'')], Inr state)
                 | Inr (Some (latitude, longitude)) \<Rightarrow>
                     ([Geocode (name @ '', India'')],
                      Inr (state\<lparr>lat := Val latitude, lon := Val longitude\<rparr>)))))"

subsection \<open>\<^verbatim>\<open>flood_vulnerability\<close>\<close>

text \<open>\<^verbatim>\<open>location_name or 'Selected Location'\<close>.\<close>

definition name_or_default :: "string option \<Rightarrow> string" where
  "name_or_default location_name =
     (case location_name of
        None \<Rightarrow> ''Selected Location''
      | Some n \<Rightarrow> if n = [] then ''Selected Location'' else n)"

text \<open>Lines 221-237: the narrative.\<close>

definition analysis_text ::
  "env \<Rightarrow> string option \<Rightarrow> real \<Rightarrow> real \<Rightarrow> string \<Rightarrow> real \<Rightarrow> string \<Rightarrow> string" where
  "analysis_text E location_name latitude longitude risk flood_value recommendation =
     ''\<newline>            ## Flood Hazard Assessment for '' @
     name_or_default location_name @
     ''\<newline>            **Coordinates:** '' @
     fixed E 4 latitude @ '', '' @ fixed E 4 longitude @
     ''\<newline>            **Flood Risk Level:** '' @
     risk @
     ''\<newline>            **Flood Depth Index (0-1):** '' @
     fixed E 2 flood_value @
     ''\<newline>            \<newline>            ### Key Findings:\<newline>            - Blue areas indicate potential flood hazard zones (0-1m depth)\<newline>            - Darker blue shows higher flood risk areas\<newline>            - Elevation data provides additional context\<newline>            \<newline>            ### Recommendations:\<newline>            '' @
     recommendation @
     ''\<newline>            - Monitor local flood warnings and advisories\<newline>            - Consult local authorities for detailed flood risk information\<newline>            - Consider flood insurance if available in your area\<newline>            ''"

text \<open>What \<^verbatim>\<open>flood_value > 0.5\<close> raises when the value is not a number.\<close>

definition not_supported :: "string \<Rightarrow> exn" where
  "not_supported type_name =
     TypeError ([CHR 0x27] @ ''>'' @ [CHR 0x27] @ '' not supported between instances of '' @
                [CHR 0x27] @ type_name @ [CHR 0x27] @ '' and '' @
                [CHR 0x27] @ ''float'' @ [CHR 0x27])"

text \<open>
  Lines 171-242, the inner \<^verbatim>\<open>try\<close> block: either it returns the narrative and the
  map, or it raises, and then the map is as the block left it.
\<close>

definition flood_analysis ::
  "env \<Rightarrow> real \<Rightarrow> real \<Rightarrow> string option \<Rightarrow> geemap_Map
     \<Rightarrow> (exn \<times> geemap_Map) + (string \<times> geemap_Map)" where
  "flood_analysis E latitude longitude location_name m =
     (case add_layers E m of
        Inl failure \<Rightarrow> Inl failure
      | Inr m1 \<Rightarrow>
          (case reduce_region E latitude longitude of
             Inl e \<Rightarrow> Inl (e, m1)
           | Inr stats \<Rightarrow>
               (let flood_value = (case stats ''depth'' of None \<Rightarrow> Num 0 | Some v \<Rightarrow> v) in
                case flood_value of
                  NoData \<Rightarrow> Inl (not_supported ''NoneType'', m1)
                | Other type_name \<Rightarrow> Inl (not_supported type_name, m1)
                | Num v \<Rightarrow>
                    (case center_object E m1 of
                       Inl e \<Rightarrow> Inl (e, m1)
                     | Inr m2 \<Rightarrow>
                         Inr (analysis_text E location_name latitude longitude
                                (fst (risk_level v)) v (snd (risk_level v)), m2)))))"

text \<open>
  Lines 154-253. The outer \<^verbatim>\<open>except\<close> catches everything raised before the inner
  block and in the fallback of line 247, so the function has no raising branch of its own;
  the result type keeps one for its caller's \<^verbatim>\<open>except\<close>.
\<close>

definition flood_vulnerability ::
  "env \<Rightarrow> real \<Rightarrow> real \<Rightarrow> string option \<Rightarrow> exn + (string \<times> geemap_Map option)" where
  "flood_vulnerability E latitude longitude location_name =
     (case new_map E latitude longitude of
        Inl e \<Rightarrow> Inr (''Error in flood_vulnerability: '' @ str_exn e, None)
      | Inr m \<Rightarrow>
          (case flood_analysis E latitude longitude location_name m of
             Inr (text, m') \<Rightarrow> Inr (text, Some m')
           | Inl (e, m') \<Rightarrow>
               (case add_marker E m' of
                  Inl e' \<Rightarrow> Inr (''Error in flood_vulnerability: '' @ str_exn e', None)
                | Inr m'' \<Rightarrow>
                    Inr (''Basic map for ('' @ repr E latitude @ '', '' @ repr E longitude @
                         ''). Error in flood analysis: '' @ str_exn e, Some m''))))"

subsection \<open>\<^verbatim>\<open>flood_vulnerability_node\<close>\<close>

text \<open>\<^verbatim>\<open>not state.get("lat")\<close>: a missing key, \<^verbatim>\<open>None\<close> and \<^verbatim>\<open>0.0\<close> are false.\<close>

fun not_float :: "real option \<Rightarrow> bool" where
  "not_float None = True"
| "not_float (Some x) = (x = 0)"

definition missing_coordinates :: string where
  "missing_coordinates = ''Missing coordinates for flood analysis''"

text \<open>\<^verbatim>\<open>map_obj.layers[i].url\<close>.\<close>

definition layer_url :: "geemap_Map option \<Rightarrow> nat \<Rightarrow> exn + string" where
  "layer_url map_obj i =
     (case map_obj of
        None \<Rightarrow> Inl (AttributeError ''layers'')
      | Some m \<Rightarrow>
          (case item m i of
             Inl e \<Rightarrow> Inl e
           | Inr None \<Rightarrow> Inl (AttributeError ''url'')
           | Inr (Some u) \<Rightarrow> Inr u))"

text \<open>Lines 294-343: the payload with the tile addresses.\<close>

definition full_map_data ::
  "real \<Rightarrow> real \<Rightarrow> string option \<Rightarrow> string \<Rightarrow> string \<Rightarrow> string \<Rightarrow> map_payload" where
  "full_map_data latitude longitude location_name flood_risk_url water_occurrence_url
       elevation_url =
     \<lparr>center = (latitude, longitude), zoom = 12,
      md_analysis = Some ''flood_vulnerability'',
      layers = Some
        [\<lparr>l_name = ''Satellite'',
          l_url = ''https://mt1.google.com/vt/lyrs=s&x={x}&y={y}&z={z}'',
          l_attribution = ''Google Satellite'', l_visible = True, l_type = ''raster'',
          l_minZoom = None, l_maxZoom = None, l_opacity = None\<rparr>,
         \<lparr>l_name = ''Flood Risk'', l_url = flood_risk_url,
          l_attribution = ''Google Earth Engine'', l_visible = True, l_type = ''raster'',
          l_minZoom = Some 0, l_maxZoom = Some 18, l_opacity = None\<rparr>,
         \<lparr>l_name = ''Water Occurrence'', l_url = water_occurrence_url,
          l_attribution = ''JRC Global Surface Water'', l_visible = True, l_type = ''raster'',
          l_minZoom = Some 0, l_maxZoom = Some 18, l_opacity = Some 0.5\<rparr>,
         \<lparr>l_name = ''Elevation'', l_url = elevation_url,
          l_attribution = ''SRTM Elevation'', l_visible = True, l_type = ''raster'',
          l_minZoom = Some 0, l_maxZoom = Some 18, l_opacity = Some 0.6\<rparr>],
      markers = Some
        [\<lparr>position = (latitude, longitude), popup = location_name, color = Some ''red''\<rparr>],
      error = None\<rparr>"

text \<open>Lines 280-352: the payload, or the fallback when a layer cannot be read.\<close>

definition prepare_map_data ::
  "real \<Rightarrow> real \<Rightarrow> string option \<Rightarrow> geemap_Map option \<Rightarrow> map_payload" where
  "prepare_map_data latitude longitude location_name map_obj =
     (let fallback =
            \<lparr>center = (latitude, longitude), zoom = 12, md_analysis = None, layers = None,
             markers = Some
               [\<lparr>position = (latitude, longitude), popup = location_name, color = None\<rparr>],
             error = Some ''Could not load map layers. Please try again.''\<rparr>
      in case layer_url map_obj 2 of
           Inl e \<Rightarrow> fallback
         | Inr flood_risk_url \<Rightarrow>
             (case layer_url map_obj 3 of
                Inl e \<Rightarrow> fallback
              | Inr water_occurrence_url \<Rightarrow>
                  (case layer_url map_obj 4 of
                     Inl e \<Rightarrow> fallback
                   | Inr elevation_url \<Rightarrow>
                       full_map_data latitude longitude location_name flood_risk_url
                         water_occurrence_url elevation_url)))"

text \<open>
  Lines 270-273: \<^verbatim>\<open>state[key]\<close>, outside the \<^verbatim>\<open>try\<close>, then formatted with
  \<^verbatim>\<open>:.4f\<close>, which \<^verbatim>\<open>None\<close> does not support.
\<close>

definition coordinate :: "real field \<Rightarrow> string \<Rightarrow> exn + real" where
  "coordinate f key =
     (case subscript f key of
        Inl e \<Rightarrow> Inl e
      | Inr None \<Rightarrow> Inl (TypeError ''unsupported format string passed to NoneType.__format__'')
      | Inr (Some x) \<Rightarrow> Inr x)"

text \<open>Lines 256-374.\<close>

definition flood_vulnerability_node :: "env \<Rightarrow> AgentState \<Rightarrow> node_result" where
  "flood_vulnerability_node E state =
     (if not_float (get (lat state)) \<or> not_float (get (lon state)) then
        ([], Inr (state\<lparr>final_result := Val missing_coordinates,
                        map_data := Val \<lparr>center = (11.0168, 76.9558), zoom = 12,
                                         md_analysis = None, layers = None, markers = None,
                                         error = Some missing_coordinates\<rparr>\<rparr>))
      else
        (case coordinate (lat state) ''lat'' of
           Inl e \<Rightarrow> ([], Inl e)
         | Inr latitude \<Rightarrow>
        (case coordinate (lon state) ''lon'' of
           Inl e \<Rightarrow> ([], Inl e)
         | Inr longitude \<Rightarrow>
        (let location_name = get_default (location state) ''Selected Location''
         in case flood_vulnerability E latitude longitude location_name of
              Inr (text, map_obj) \<Rightarrow>
                ([Flood_vulnerability latitude longitude location_name],
                 Inr (state\<lparr>final_result := Val text,
                             map_object := stored map_obj,
                             map_data := Val (prepare_map_data latitude longitude
                                                location_name map_obj)\<rparr>))
            | Inl e \<Rightarrow>
                ([Flood_vulnerability latitude longitude location_name],
                 Inr (state\<lparr>final_result :=
                               Val (''Error in flood vulnerability analysis: '' @ str_exn e),
                             map_object := Null,
                             map_data := Val
                               \<lparr>center = (latitude, longitude), zoom = 12,
                                md_analysis = None, layers = None,
                                markers = Some
                                  [\<lparr>position = (latitude, longitude),
                                    popup = location_name, color = None\<rparr>],
                                error = Some (''Error in flood vulnerability analysis: '' @
                                              str_exn e)\<rparr>\<rparr>))))))"

subsection \<open>The graph\<close>

text \<open>
  The conditional edge after \<^verbatim>\<open>intent\<close>:
  \<^verbatim>\<open>lambda state: "END" if state["intent"] == "normal" else "geo_query"\<close>.
\<close>

definition route :: "AgentState \<Rightarrow> exn + string" where
  "route state =
     (case subscript (intent state) ''intent'' of
        Inl e \<Rightarrow> Inl e
      | Inr i \<Rightarrow> Inr (if i = Some ''normal'' then ''END'' else ''geo_query''))"

text \<open>
  One run of the graph: the nodes entered, the external calls made, and the state
  returned or the exception that left the graph.
\<close>

record turn =
  visited :: "string list"
  calls :: "call list"
  outcome :: "exn + AgentState"

text \<open>
  The graph is compiled from \<^verbatim>\<open>StateGraph(AgentState)\<close>: it holds one value for
  each key that \<^verbatim>\<open>AgentState\<close> declares (lines 38-46) and no other. The key
  \<^verbatim>\<open>map_data\<close> is not declared, so what is given or returned under it is dropped.
\<close>

definition declared :: "AgentState \<Rightarrow> AgentState" where
  "declared state = state\<lparr>map_data := Absent\<rparr>"

text \<open>
  Entering a node with the state of the run so far: the graph takes the declared keys of
  what the node returns; a raised exception ends the run.
\<close>

definition enter :: "string \<Rightarrow> (AgentState \<Rightarrow> node_result) \<Rightarrow> turn \<Rightarrow> turn" where
  "enter node_name node t =
     (case outcome t of
        Inl e \<Rightarrow> t
      | Inr state \<Rightarrow>
          \<lparr>visited = visited t @ [node_name],
           calls = calls t @ fst (node state),
           outcome = (case snd (node state) of
                        Inl e \<Rightarrow> Inl e
                      | Inr state' \<Rightarrow> Inr (declared state'))\<rparr>)"

text \<open>
  Lines 377-396: the entry point \<^verbatim>\<open>intent\<close>, its conditional edge, where the label
  \<^verbatim>\<open>END\<close> ends the run, and the fixed edges \<^verbatim>\<open>geo_query\<close> to
  \<^verbatim>\<open>location_helper\<close> to \<^verbatim>\<open>flood_vulnerability\<close> to the end. Each node is handed
  the state the graph holds after the node before it.
\<close>

definition workflow :: "env \<Rightarrow> AgentState \<Rightarrow> turn" where
  "workflow E state =
     (let t1 = enter ''intent'' (intent_node E)
                 \<lparr>visited = [], calls = [], outcome = Inr (declared state)\<rparr>
      in case outcome t1 of
           Inl e \<Rightarrow> t1
         | Inr state1 \<Rightarrow>
             (case route state1 of
                Inl e \<Rightarrow> t1\<lparr>outcome := Inl e\<rparr>
              | Inr label \<Rightarrow>
                  if label = ''END'' then t1
                  else enter ''flood_vulnerability'' (flood_vulnerability_node E)
                         (enter ''location_helper'' (location_helper_node E)
                            (enter ''geo_query'' (geo_query_node E) t1))))"

subsection \<open>Vocabulary and inputs for the properties\<close>

text \<open>
  A line of the reply that begins with a label once stripped, whatever its case; the
  text after the label, stripped; and a line that carries neither label nor one of the
  two excluded words.
\<close>

definition is_location_line :: "string \<Rightarrow> bool" where
  "is_location_line raw = startswith (lower (strip raw)) ''location:''"

definition is_analysis_line :: "string \<Rightarrow> bool" where
  "is_analysis_line raw = startswith (lower (strip raw)) ''analysis:''"

definition label_rest :: "string \<Rightarrow> string" where
  "label_rest raw = strip (drop 9 (strip raw))"

definition is_bare_line :: "string \<Rightarrow> bool" where
  "is_bare_line raw =
     (\<not> is_location_line raw \<and> \<not> is_analysis_line raw \<and> strip raw \<noteq> [] \<and>
      \<not> contains (lower (strip raw)) ''analysis:'' \<and>
      \<not> contains (lower (strip raw)) ''reply:'')"

text \<open>
  The state the entry point of line 401 starts a turn with: the key \<^verbatim>\<open>input\<close> only.
\<close>

definition fresh_state :: "string \<Rightarrow> AgentState" where
  "fresh_state text =
     \<lparr>input = Val text, intent = Absent, location = Absent, analysis = Absent,
      lat = Absent, lon = Absent, final_result = Absent, map_object = Absent,
      map_data = Absent\<rparr>"

text \<open>
  Collaborators for concrete runs. In \<open>scripted_env\<close> each chain raises the given
  exception or answers with the given plain text, the geocoder gives the given outcome,
  and the geospatial platform is down. \<open>with_platform\<close> puts a working platform in
  its place: a map of two base layers, three more layers added with tile addresses, and
  the given zonal statistics.
\<close>

definition scripted_env ::
  "exn + string \<Rightarrow> exn + string \<Rightarrow> exn + (real \<times> real) option \<Rightarrow> env" where
  "scripted_env intent_reply geo_reply place =
     \<lparr>intent_chain = (\<lambda>inp. map_sum id Plain intent_reply),
      geo_chain = (\<lambda>inp. map_sum id Plain geo_reply),
      geocode = (\<lambda>q. place),
      new_map = (\<lambda>latitude longitude. Inl (External ''Earth Engine client library not initialized.'')),
      add_layers = (\<lambda>m. Inl (External ''Earth Engine client library not initialized.'', m)),
      reduce_region = (\<lambda>latitude longitude. Inl (External ''Earth Engine client library not initialized.'')),
      center_object = (\<lambda>m. Inl (External ''Earth Engine client library not initialized.'')),
      add_marker = (\<lambda>m. Inl (External ''Earth Engine client library not initialized.'')),
      fixed = (\<lambda>n x. ''0.0000''),
      repr = (\<lambda>x. ''0.0'')\<rparr>"

text \<open>
  The classifier's chain of line 59 ends in the chat model, whose reply is a message
  object: the text is its \<^verbatim>\<open>content\<close>, and \<^verbatim>\<open>str\<close> of it prints the fields.
  \<open>message\<close> is such a reply with no other field set, and \<open>with_intent_reply\<close>
  makes the classifier give a reply of any shape.
\<close>

definition message :: "string \<Rightarrow> llm_result" where
  "message content =
     Message (Some content)
       (''content='' @ [CHR 0x27] @ content @ [CHR 0x27] @
        '' additional_kwargs={} response_metadata={}'')"

definition with_intent_reply :: "env \<Rightarrow> llm_result \<Rightarrow> env" where
  "with_intent_reply E reply = E\<lparr>intent_chain := (\<lambda>inp. Inr reply)\<rparr>"

definition with_platform :: "env \<Rightarrow> (string \<times> stat) list \<Rightarrow> env" where
  "with_platform E stats =
     E\<lparr>new_map := (\<lambda>latitude longitude. Inr [None, None]),
       add_layers := (\<lambda>m. Inr (m @ [Some ''tiles/flood'', Some ''tiles/elevation'',
                                      Some ''tiles/point''])),
       reduce_region := (\<lambda>latitude longitude. Inr (map_of stats)),
       center_object := (\<lambda>m. Inr m),
       add_marker := (\<lambda>m. Inr m)\<rparr>"

text \<open>
  \<open>with_failure E step e\<close> makes one step of the platform raise \<open>e\<close>: adding the
  layers, the zonal statistics, centring the map, or the marker of the fallback.
\<close>

definition with_failure :: "env \<Rightarrow> string \<Rightarrow> exn \<Rightarrow> env" where
  "with_failure E step e =
     E\<lparr>add_layers := (if step = ''add_layers'' then (\<lambda>m. Inl (e, m)) else add_layers E),
       reduce_region := (if step = ''reduce_region'' then (\<lambda>latitude longitude. Inl e)
                         else reduce_region E),
       center_object := (if step = ''center_object'' then (\<lambda>m. Inl e) else center_object E),
       add_marker := (if step = ''add_marker'' then (\<lambda>m. Inl e) else add_marker E)\<rparr>"

text \<open>
  A state with a place and its coordinates, and collaborators of which only the
  classifier answers.
\<close>

definition located_state :: AgentState where
  "located_state =
     (fresh_state ''Is Chennai flood prone?'')
       \<lparr>location := Val ''Chennai'', lat := Val 13.0827, lon := Val 80.2707\<rparr>"

definition offline_env :: env where
  "offline_env =
     scripted_env (Inr ''query'') (Inl (External ''Rate limit reached''))
       (Inl (External ''Service timed out''))"

section \<open>Properties\<close>

subsection \<open>Lemmas on the line scanner\<close>

lemma of_char_lower_char:
  "(of_char (lower_char c) :: nat) =
     (if (65 \<le> (of_char c :: nat) \<and> (of_char c :: nat) \<le> 90) \<or>
         (192 \<le> (of_char c :: nat) \<and> (of_char c :: nat) \<le> 222 \<and>
          (of_char c :: nat) \<noteq> 215)
      then of_char c + 32 else of_char c)"
  by (simp add: lower_char_def Let_def)

lemma lower_char_colon: "lower_char c = CHR '':'' \<longleftrightarrow> c = CHR '':''"
proof
  assume "lower_char c = CHR '':''"
  then have "(of_char (lower_char c) :: nat) = 58" by simp
  then have "(of_char c :: nat) = 58"
    by (simp add: of_char_lower_char split: if_splits)
  then have "(of_char c :: nat) = of_char (CHR '':'')" by simp
  then show "c = CHR '':''" by (simp only: of_char_eq_iff)
next
  assume "c = CHR '':''"
  then show "lower_char c = CHR '':''" by (simp add: lower_char_def)
qed

text \<open>After a label that ends in the first colon of the line, the second piece of
  \<^verbatim>\<open>split(':', 1)\<close> exists and is what follows the label.\<close>

lemma rest_after_label:
  assumes sw: "startswith (lower l) (pre @ '':'')" and nc: "CHR '':'' \<notin> set pre"
  shows "item (split1 l (CHR '':'')) 1 = Inr (drop (Suc (length pre)) l)"
proof -
  let ?k = "length pre"
  from sw have tk: "take (Suc ?k) (map lower_char l) = pre @ '':''"
    by (simp add: startswith_def lower_def)
  then have "length (take (Suc ?k) (map lower_char l)) = Suc ?k" by simp
  then have len: "?k < length l" by simp
  then have dec: "l = take ?k l @ l ! ?k # drop (Suc ?k) l"
    by (rule id_take_nth_drop)
  from tk len have "map lower_char (take ?k l) @ [lower_char (l ! ?k)] = pre @ '':''"
    by (simp add: take_Suc_conv_app_nth take_map)
  then have p: "map lower_char (take ?k l) = pre" and c: "lower_char (l ! ?k) = CHR '':''"
    by simp_all
  from c have colon: "l ! ?k = CHR '':''" by (simp add: lower_char_colon)
  have none: "x \<noteq> CHR '':''" if "x \<in> set (take ?k l)" for x
  proof
    assume "x = CHR '':''"
    with that have "lower_char (CHR '':'') \<in> set (map lower_char (take ?k l))" by force
    moreover have "lower_char (CHR '':'') = CHR '':''" by (simp add: lower_char_def)
    ultimately show False using p nc by simp
  qed
  have tw: "takeWhile (\<lambda>c. c \<noteq> CHR '':'') l = take ?k l"
    by (subst dec, simp add: none colon del: append_take_drop_id)
  have dw: "dropWhile (\<lambda>c. c \<noteq> CHR '':'') l = l ! ?k # drop (Suc ?k) l"
    by (subst dec, simp add: none colon)
  have mem: "CHR '':'' \<in> set l"
    using colon len nth_mem by metis
  show ?thesis
    by (simp add: split1_def mem tw dw item_def)
qed

lemma analysis_not_location: "is_analysis_line raw \<Longrightarrow> \<not> is_location_line raw"
  by (auto simp: is_analysis_line_def is_location_line_def startswith_def)

lemma scan_line_location:
  assumes "is_location_line raw"
  shows "scan_line la raw = Inr (Some (label_rest raw), snd la)"
proof -
  from assms have sw: "startswith (lower (strip raw)) (''location'' @ '':'')"
    by (simp add: is_location_line_def)
  have "CHR '':'' \<notin> set ''location''" by simp
  from rest_after_label [OF sw this]
  have "item (split1 (strip raw) (CHR '':'')) 1 = Inr (drop 9 (strip raw))"
    by (simp add: eval_nat_numeral)
  with assms show ?thesis
    by (simp add: scan_line_def is_location_line_def label_rest_def)
qed

lemma scan_line_analysis:
  assumes "is_analysis_line raw"
  shows "scan_line la raw = Inr (fst la, Some (label_rest raw))"
proof -
  from assms have sw: "startswith (lower (strip raw)) (''analysis'' @ '':'')"
    by (simp add: is_analysis_line_def)
  have "CHR '':'' \<notin> set ''analysis''" by simp
  from rest_after_label [OF sw this]
  have "item (split1 (strip raw) (CHR '':'')) 1 = Inr (drop 9 (strip raw))"
    by (simp add: eval_nat_numeral)
  moreover from assms have "\<not> startswith (lower (strip raw)) ''location:''"
    using analysis_not_location by (simp add: is_location_line_def)
  ultimately show ?thesis using assms
    by (simp add: scan_line_def is_analysis_line_def label_rest_def)
qed

lemma scan_line_bare:
  assumes "is_bare_line raw" and "not_text (fst la)"
  shows "scan_line la raw = Inr (Some (strip raw), snd la)"
  using assms
  by (simp add: scan_line_def is_bare_line_def is_location_line_def is_analysis_line_def)

lemma scan_line_other:
  assumes "\<not> is_location_line raw" and "\<not> is_analysis_line raw"
    and "\<not> (is_bare_line raw \<and> not_text (fst la))"
  shows "scan_line la raw = Inr la"
  using assms
  by (auto simp: scan_line_def is_bare_line_def is_location_line_def is_analysis_line_def)

lemma scan_line_total: "\<exists>la'. scan_line la raw = Inr la'"
proof (cases "is_location_line raw")
  case True
  then show ?thesis by (simp add: scan_line_location)
next
  case nl: False
  show ?thesis
  proof (cases "is_analysis_line raw")
    case True
    then show ?thesis by (simp add: scan_line_analysis)
  next
    case False
    with nl show ?thesis
      by (cases "is_bare_line raw \<and> not_text (fst la)")
        (simp_all add: scan_line_bare scan_line_other)
  qed
qed

lemma scan_lines_total: "\<exists>la'. scan_lines la raws = Inr la'"
proof (induction raws arbitrary: la)
  case Nil
  show ?case by simp
next
  case (Cons raw raws)
  obtain la1 where "scan_line la raw = Inr la1" using scan_line_total by blast
  with Cons.IH [of la1] show ?case by simp
qed

lemma scan_lines_append:
  "scan_lines la (xs @ ys) =
     (case scan_lines la xs of Inl e \<Rightarrow> Inl e | Inr la' \<Rightarrow> scan_lines la' ys)"
  by (induction xs arbitrary: la) (simp_all split: sum.splits)

lemma keep_location:
  assumes "\<forall>r \<in> set post. \<not> is_location_line r" and "\<not> not_text loc"
  shows "\<exists>a'. scan_lines (loc, a) post = Inr (loc, a')"
  using assms(1)
proof (induction post arbitrary: a)
  case Nil
  show ?case by simp
next
  case (Cons raw post)
  then have nl: "\<not> is_location_line raw" and rest: "\<forall>r \<in> set post. \<not> is_location_line r"
    by simp_all
  show ?case
  proof (cases "is_analysis_line raw")
    case True
    then have "scan_line (loc, a) raw = Inr (loc, Some (label_rest raw))"
      by (simp add: scan_line_analysis)
    with Cons.IH [OF rest, of "Some (label_rest raw)"] show ?thesis by simp
  next
    case False
    with nl assms(2) have "scan_line (loc, a) raw = Inr (loc, a)"
      by (simp add: scan_line_other)
    with Cons.IH [OF rest, of a] show ?thesis by simp
  qed
qed

lemma keep_analysis:
  assumes "\<forall>r \<in> set post. \<not> is_analysis_line r"
  shows "\<exists>l'. scan_lines (l, a) post = Inr (l', a)"
  using assms
proof (induction post arbitrary: l)
  case Nil
  show ?case by simp
next
  case (Cons raw post)
  then have na: "\<not> is_analysis_line raw" and rest: "\<forall>r \<in> set post. \<not> is_analysis_line r"
    by simp_all
  have "\<exists>l1. scan_line (l, a) raw = Inr (l1, a)"
  proof (cases "is_location_line raw")
    case True
    then show ?thesis by (simp add: scan_line_location)
  next
    case False
    with na show ?thesis
      by (cases "is_bare_line raw \<and> not_text l")
        (simp_all add: scan_line_bare scan_line_other)
  qed
  then obtain l1 where "scan_line (l, a) raw = Inr (l1, a)" ..
  with Cons.IH [OF rest, of l1] show ?case by simp
qed

lemma location_still_unset:
  assumes "\<forall>r \<in> set pre. \<not> is_location_line r \<and> \<not> is_bare_line r"
  shows "\<exists>a'. scan_lines (None, a) pre = Inr (None, a')"
  using assms
proof (induction pre arbitrary: a)
  case Nil
  show ?case by simp
next
  case (Cons raw pre)
  then have nl: "\<not> is_location_line raw" and nb: "\<not> is_bare_line raw"
    and rest: "\<forall>r \<in> set pre. \<not> is_location_line r \<and> \<not> is_bare_line r"
    by simp_all
  show ?case
  proof (cases "is_analysis_line raw")
    case True
    then have "scan_line (None, a) raw = Inr (None, Some (label_rest raw))"
      by (simp add: scan_line_analysis)
    with Cons.IH [OF rest, of "Some (label_rest raw)"] show ?thesis by simp
  next
    case False
    with nl nb have "scan_line (None, a) raw = Inr (None, a)"
      by (simp add: scan_line_other)
    with Cons.IH [OF rest, of a] show ?thesis by simp
  qed
qed

lemma last_location_line_wins:
  assumes "is_location_line raw" and "label_rest raw \<noteq> []"
    and "\<forall>r \<in> set post. \<not> is_location_line r"
  shows "\<exists>a. scan_lines la (pre @ raw # post) = Inr (Some (label_rest raw), a)"
proof -
  obtain la1 where 1: "scan_lines la pre = Inr la1" using scan_lines_total by blast
  have 2: "scan_line la1 raw = Inr (Some (label_rest raw), snd la1)"
    using assms(1) by (rule scan_line_location)
  from assms(2) have "\<not> not_text (Some (label_rest raw))" by simp
  from keep_location [OF assms(3) this, of "snd la1"]
  obtain a where "scan_lines (Some (label_rest raw), snd la1) post = Inr (Some (label_rest raw), a)" ..
  with 1 2 show ?thesis by (simp add: scan_lines_append)
qed

lemma last_analysis_line_wins:
  assumes "is_analysis_line raw" and "\<forall>r \<in> set post. \<not> is_analysis_line r"
  shows "\<exists>l. scan_lines la (pre @ raw # post) = Inr (l, Some (label_rest raw))"
proof -
  obtain la1 where 1: "scan_lines la pre = Inr la1" using scan_lines_total by blast
  have 2: "scan_line la1 raw = Inr (fst la1, Some (label_rest raw))"
    using assms(1) by (rule scan_line_analysis)
  from keep_analysis [OF assms(2), of "fst la1" "Some (label_rest raw)"]
  obtain l where "scan_lines (fst la1, Some (label_rest raw)) post = Inr (l, Some (label_rest raw))" ..
  with 1 2 show ?thesis by (simp add: scan_lines_append)
qed

lemma first_bare_line_taken:
  assumes "\<forall>r \<in> set pre. \<not> is_location_line r \<and> \<not> is_bare_line r"
    and "is_bare_line raw" and "\<forall>r \<in> set post. \<not> is_location_line r"
  shows "\<exists>a. scan_lines (None, None) (pre @ raw # post) = Inr (Some (strip raw), a)"
proof -
  from location_still_unset [OF assms(1), of None]
  obtain a1 where 1: "scan_lines (None, None) pre = Inr (None, a1)" ..
  have 2: "scan_line (None, a1) raw = Inr (Some (strip raw), a1)"
    using scan_line_bare [OF assms(2), of "(None, a1)"] by simp
  from assms(2) have "\<not> not_text (Some (strip raw))" by (simp add: is_bare_line_def)
  from keep_location [OF assms(3) this, of a1]
  obtain a where "scan_lines (Some (strip raw), a1) post = Inr (Some (strip raw), a)" ..
  with 1 2 show ?thesis by (simp add: scan_lines_append)
qed

lemma parse_answer_total: "\<exists>l a. parse_answer answer = Inr (l, a)"
  using scan_lines_total [of "(None, None)" "split answer (CHR ''\<newline>'')"]
  by (auto simp: parse_answer_def)

text \<open>
  C4. The risk tier depends on the mean depth alone, with strict thresholds: a depth
  above 0.5 is High, a depth above 0.2 and at most 0.5 is Moderate, a depth of at most
  0.2 is Low; so 0.6 is High, 0.3 Moderate, 0.05 Low, and the boundaries 0.5 and 0.2 are
  Moderate and Low. Each tier carries its own fixed recommendation.
\<close>

theorem risk_level_thresholds:
  "(d > 0.5 \<longrightarrow> risk_level d = (''High'', high_recommendation)) \<and>
   (0.2 < d \<and> d \<le> 0.5 \<longrightarrow> risk_level d = (''Moderate'', moderate_recommendation)) \<and>
   (d \<le> 0.2 \<longrightarrow> risk_level d = (''Low'', low_recommendation)) \<and>
   fst (risk_level 0.6) = ''High'' \<and>
   fst (risk_level 0.3) = ''Moderate'' \<and>
   fst (risk_level 0.05) = ''Low'' \<and>
   fst (risk_level 0.5) = ''Moderate'' \<and>
   fst (risk_level 0.2) = ''Low''"
  by (simp add: risk_level_def)

theorem risk_level_thresholds_witness:
  "(0.6::real) > 0.5 \<and> risk_level 0.6 = (''High'', high_recommendation) \<and>
   (0.2::real) < 0.5 \<and> (0.5::real) \<le> 0.5 \<and>
   risk_level 0.5 = (''Moderate'', moderate_recommendation) \<and>
   (0.2::real) \<le> 0.2 \<and> risk_level 0.2 = (''Low'', low_recommendation)"
  using risk_level_thresholds [of "0.6"] risk_level_thresholds [of "0.5"]
    risk_level_thresholds [of "0.2"]
  by simp


subsection \<open>The last node without coordinates\<close>

lemma missing_coordinates_branch:
  assumes "not_float (get (lat state)) \<or> not_float (get (lon state))"
  shows "flood_vulnerability_node E state =
           ([], Inr (state\<lparr>final_result := Val ''Missing coordinates for flood analysis'',
                           map_data := Val \<lparr>center = (11.0168, 76.9558), zoom = 12,
                                            md_analysis = None, layers = None,
                                            markers = None,
                                            error = Some ''Missing coordinates for flood analysis''\<rparr>\<rparr>))"
  using assms by (simp add: flood_vulnerability_node_def missing_coordinates_def)

text \<open>
  C6. When the state reaching \<^verbatim>\<open>flood_vulnerability_node\<close> has no latitude or no
  longitude (the key is missing or holds \<^verbatim>\<open>None\<close>), the node makes no external
  call, so \<^verbatim>\<open>flood_vulnerability\<close> is not invoked, and it returns the state with
  \<^verbatim>\<open>final_result\<close> set to the fixed text and \<^verbatim>\<open>map_data\<close> set to a payload
  that carries that text as its error and the default centre 11.0168, 76.9558, without
  layers and without markers.
\<close>

theorem absent_coordinates_payload:
  assumes "get (lat state) = None \<or> get (lon state) = None"
  shows "flood_vulnerability_node E state =
           ([], Inr (state\<lparr>final_result := Val ''Missing coordinates for flood analysis'',
                           map_data := Val \<lparr>center = (11.0168, 76.9558), zoom = 12,
                                            md_analysis = None, layers = None,
                                            markers = None,
                                            error = Some ''Missing coordinates for flood analysis''\<rparr>\<rparr>))"
proof -
  from assms have "not_float (get (lat state)) \<or> not_float (get (lon state))" by auto
  then show ?thesis by (rule missing_coordinates_branch)
qed

theorem absent_coordinates_payload_witness:
  "get (lat (fresh_state ''Is it flood prone?'')) = None \<and>
   flood_vulnerability_node (scripted_env (Inr ''query'') (Inr ''ASK_LOCATION'') (Inr None))
       (fresh_state ''Is it flood prone?'') =
     ([], Inr ((fresh_state ''Is it flood prone?'')
                \<lparr>final_result := Val ''Missing coordinates for flood analysis'',
                 map_data := Val \<lparr>center = (11.0168, 76.9558), zoom = 12,
                                  md_analysis = None, layers = None, markers = None,
                                  error = Some ''Missing coordinates for flood analysis''\<rparr>\<rparr>))"
proof -
  have h: "get (lat (fresh_state ''Is it flood prone?'')) = None"
    by (simp add: fresh_state_def)
  then have "get (lat (fresh_state ''Is it flood prone?'')) = None \<or>
             get (lon (fresh_state ''Is it flood prone?'')) = None" ..
  from absent_coordinates_payload [OF this] h show ?thesis by simp
qed

text \<open>
  C9. A latitude or a longitude of exactly 0.0 is present but false as a truth value, so
  the node answers as for missing coordinates: the fixed error text, the payload with the
  default centre, and no call of \<^verbatim>\<open>flood_vulnerability\<close>.
\<close>

theorem zero_coordinate_payload:
  assumes "lat state = Val 0 \<or> lon state = Val 0"
  shows "flood_vulnerability_node E state =
           ([], Inr (state\<lparr>final_result := Val ''Missing coordinates for flood analysis'',
                           map_data := Val \<lparr>center = (11.0168, 76.9558), zoom = 12,
                                            md_analysis = None, layers = None,
                                            markers = None,
                                            error = Some ''Missing coordinates for flood analysis''\<rparr>\<rparr>))"
proof -
  from assms have "not_float (get (lat state)) \<or> not_float (get (lon state))" by auto
  then show ?thesis by (rule missing_coordinates_branch)
qed

theorem zero_coordinate_payload_witness:
  "lat ((fresh_state ''Gulf of Guinea'')\<lparr>lat := Val 0, lon := Val 6.5\<rparr>) = Val 0 \<and>
   flood_vulnerability_node (scripted_env (Inr ''query'') (Inr ''Location: Gulf of Guinea'') (Inr None))
       ((fresh_state ''Gulf of Guinea'')\<lparr>lat := Val 0, lon := Val 6.5\<rparr>) =
     ([], Inr ((fresh_state ''Gulf of Guinea'')
                \<lparr>lat := Val 0, lon := Val 6.5,
                 final_result := Val ''Missing coordinates for flood analysis'',
                 map_data := Val \<lparr>center = (11.0168, 76.9558), zoom = 12,
                                  md_analysis = None, layers = None, markers = None,
                                  error = Some ''Missing coordinates for flood analysis''\<rparr>\<rparr>))"
proof -
  have h: "lat ((fresh_state ''Gulf of Guinea'')\<lparr>lat := Val 0, lon := Val 6.5\<rparr>) = Val 0"
    by simp
  then have "lat ((fresh_state ''Gulf of Guinea'')\<lparr>lat := Val 0, lon := Val 6.5\<rparr>) = Val 0 \<or>
             lon ((fresh_state ''Gulf of Guinea'')\<lparr>lat := Val 0, lon := Val 6.5\<rparr>) = Val 0" ..
  from zero_coordinate_payload [OF this] h show ?thesis by simp
qed

subsection \<open>Exceptions and the nodes\<close>

lemma flood_vulnerability_returns: "\<exists>r. flood_vulnerability E x y n = Inr r"
  by (simp add: flood_vulnerability_def split: sum.splits prod.splits)

lemma coordinate_present: "\<not> not_float (get f) \<Longrightarrow> \<exists>x. f = Val x \<and> x \<noteq> 0 \<and> coordinate f k = Inr x"
  by (cases f) (simp_all add: coordinate_def)

lemma flood_vulnerability_node_returns:
  "\<exists>cs state'. flood_vulnerability_node E state = (cs, Inr state')"
proof (cases "not_float (get (lat state)) \<or> not_float (get (lon state))")
  case True
  then show ?thesis by (simp add: flood_vulnerability_node_def)
next
  case False
  then obtain x y where "coordinate (lat state) ''lat'' = Inr x"
    and "coordinate (lon state) ''lon'' = Inr y"
    using coordinate_present by blast
  with False show ?thesis
    by (simp add: flood_vulnerability_node_def Let_def split: sum.splits prod.splits)
qed

lemma location_helper_node_returns:
  "\<exists>cs state'. location_helper_node E state = (cs, Inr state')"
  by (simp add: location_helper_node_def split: option.splits sum.splits prod.splits)

lemma intent_node_result:
  assumes "subscript (input state) ''input'' = Inr inp"
  shows "intent_node E state =
           ([Intent_chain inp],
            case intent_chain E inp of
              Inl e \<Rightarrow> Inl e
            | Inr result \<Rightarrow>
                Inr (state\<lparr>intent := if intent_text result = ''normal'' \<or>
                                        intent_text result = ''query''
                                     then Val (intent_text result) else Null\<rparr>))"
  using assms by (simp add: intent_node_def Let_def split: sum.splits)

lemma geo_query_node_result:
  assumes "subscript (input state) ''input'' = Inr inp"
  shows "geo_query_node E state =
           ([Geo_chain inp],
            case geo_chain E inp of
              Inl e \<Rightarrow> Inl e
            | Inr result \<Rightarrow>
                if contains (answer_text result) ''ASK_LOCATION'' \<or>
                   contains (answer_text result) ''ASK_ANALYSIS''
                then Inr state
                else (case parse_answer (answer_text result) of
                        Inl e \<Rightarrow> Inl e
                      | Inr (l, a) \<Rightarrow>
                          Inr (state\<lparr>location := stored l, analysis := stored a\<rparr>)))"
  using assms by (simp add: geo_query_node_def Let_def split: sum.splits prod.splits)

lemma geo_query_node_returns:
  assumes "subscript (input state) ''input'' = Inr inp" and "geo_chain E inp = Inr result"
  shows "\<exists>state'. geo_query_node E state = ([Geo_chain inp], Inr state')"
proof -
  obtain l a where "parse_answer (answer_text result) = Inr (l, a)"
    using parse_answer_total by blast
  with assms show ?thesis by (simp add: geo_query_node_result)
qed

lemma flood_vulnerability_node_present:
  assumes "lat state = Val x" and "lon state = Val y" and "x \<noteq> 0" and "y \<noteq> 0"
    and "flood_vulnerability E x y (get_default (location state) ''Selected Location'') =
           Inr (text, map_obj)"
  shows "flood_vulnerability_node E state =
           ([Flood_vulnerability x y (get_default (location state) ''Selected Location'')],
            Inr (state\<lparr>final_result := Val text,
                        map_object := stored map_obj,
                        map_data := Val (prepare_map_data x y
                                           (get_default (location state) ''Selected Location'')
                                           map_obj)\<rparr>))"
  using assms by (simp add: flood_vulnerability_node_def coordinate_def Let_def)

lemma no_map_no_layers:
  "error (prepare_map_data x y name None) = Some ''Could not load map layers. Please try again.''"
  by (simp add: prepare_map_data_def layer_url_def)

text \<open>
  C3, as the code has it. \<^verbatim>\<open>location_helper_node\<close> and
  \<^verbatim>\<open>flood_vulnerability_node\<close> return a state for every input and every outcome of
  the geocoder and of the geospatial platform. When the geocoder raises, the state comes
  back as it was and no failure text is kept. When the platform fails, the failure text
  is in \<^verbatim>\<open>final_result\<close>: \<^verbatim>\<open>Error in flood_vulnerability:\<close> and the message
  when the map cannot be built or the fallback marker cannot be added, and then the
  payload carries an error text too; \<^verbatim>\<open>Basic map for (...). Error in flood analysis:\<close>
  and the message when adding the layers, the zonal statistics or centring the map fails.
  \<^verbatim>\<open>intent_node\<close> and \<^verbatim>\<open>geo_query_node\<close> return a state whenever the key
  \<^verbatim>\<open>input\<close> is present and the completion provider answers; when the provider raises,
  the exception leaves the node, and with it the workflow.
\<close>

theorem nodes_and_failures:
  "(\<exists>cs state'. location_helper_node E state = (cs, Inr state')) \<and>
   (get (location state) = Some place \<longrightarrow> geocode E (place @ '', India'') = Inl e \<longrightarrow>
      snd (location_helper_node E state) = Inr state) \<and>
   (\<exists>cs state'. flood_vulnerability_node E state = (cs, Inr state')) \<and>
   (lat state = Val x \<longrightarrow> lon state = Val y \<longrightarrow> x \<noteq> 0 \<longrightarrow> y \<noteq> 0 \<longrightarrow> new_map E x y = Inl e \<longrightarrow>
      (\<exists>cs state' payload. flood_vulnerability_node E state = (cs, Inr state') \<and>
         final_result state' = Val (''Error in flood_vulnerability: '' @ str_exn e) \<and>
         map_data state' = Val payload \<and>
         error payload = Some ''Could not load map layers. Please try again.'')) \<and>
   (lat state = Val x \<longrightarrow> lon state = Val y \<longrightarrow> x \<noteq> 0 \<longrightarrow> y \<noteq> 0 \<longrightarrow> new_map E x y = Inr m \<longrightarrow>
      flood_analysis E x y (get_default (location state) ''Selected Location'') m = Inl (e, m') \<longrightarrow>
      add_marker E m' = Inr m'' \<longrightarrow>
      (\<exists>cs state'. flood_vulnerability_node E state = (cs, Inr state') \<and>
         final_result state' =
           Val (''Basic map for ('' @ repr E x @ '', '' @ repr E y @
                ''). Error in flood analysis: '' @ str_exn e))) \<and>
   (lat state = Val x \<longrightarrow> lon state = Val y \<longrightarrow> x \<noteq> 0 \<longrightarrow> y \<noteq> 0 \<longrightarrow> new_map E x y = Inr m \<longrightarrow>
      flood_analysis E x y (get_default (location state) ''Selected Location'') m = Inl (e, m') \<longrightarrow>
      add_marker E m' = Inl e' \<longrightarrow>
      (\<exists>cs state' payload. flood_vulnerability_node E state = (cs, Inr state') \<and>
         final_result state' = Val (''Error in flood_vulnerability: '' @ str_exn e') \<and>
         map_data state' = Val payload \<and>
         error payload = Some ''Could not load map layers. Please try again.'')) \<and>
   (add_layers E m = Inl (e, m') \<longrightarrow> flood_analysis E x y name m = Inl (e, m')) \<and>
   (add_layers E m = Inr ml \<longrightarrow> reduce_region E x y = Inl e \<longrightarrow>
      flood_analysis E x y name m = Inl (e, ml)) \<and>
   (add_layers E m = Inr ml \<longrightarrow> reduce_region E x y = Inr stats \<longrightarrow>
      stats ''depth'' = None \<or> stats ''depth'' = Some (Num v) \<longrightarrow>
      center_object E ml = Inl e \<longrightarrow>
      flood_analysis E x y name m = Inl (e, ml)) \<and>
   (subscript (input state) ''input'' = Inr inp \<longrightarrow> intent_chain E inp = Inr result \<longrightarrow>
      (\<exists>cs state'. intent_node E state = (cs, Inr state'))) \<and>
   (subscript (input state) ''input'' = Inr inp \<longrightarrow> geo_chain E inp = Inr result \<longrightarrow>
      (\<exists>cs state'. geo_query_node E state = (cs, Inr state'))) \<and>
   (subscript (input state) ''input'' = Inr inp \<longrightarrow> intent_chain E inp = Inl e \<longrightarrow>
      snd (intent_node E state) = Inl e \<and> outcome (workflow E state) = Inl e) \<and>
   (subscript (input state) ''input'' = Inr inp \<longrightarrow> geo_chain E inp = Inl e \<longrightarrow>
      snd (geo_query_node E state) = Inl e)"
proof (intro conjI impI)
  show "\<exists>cs state'. location_helper_node E state = (cs, Inr state')"
    by (rule location_helper_node_returns)
  show "\<exists>cs state'. flood_vulnerability_node E state = (cs, Inr state')"
    by (rule flood_vulnerability_node_returns)
next
  assume "get (location state) = Some place" "geocode E (place @ '', India'') = Inl e"
  then show "snd (location_helper_node E state) = Inr state"
    by (simp add: location_helper_node_def)
next
  assume c: "lat state = Val x" "lon state = Val y" "x \<noteq> 0" "y \<noteq> 0"
    and "new_map E x y = Inl e"
  then have "flood_vulnerability E x y (get_default (location state) ''Selected Location'') =
      Inr (''Error in flood_vulnerability: '' @ str_exn e, None)"
    by (simp add: flood_vulnerability_def)
  from flood_vulnerability_node_present [OF c this]
  show "\<exists>cs state' payload. flood_vulnerability_node E state = (cs, Inr state') \<and>
         final_result state' = Val (''Error in flood_vulnerability: '' @ str_exn e) \<and>
         map_data state' = Val payload \<and>
         error payload = Some ''Could not load map layers. Please try again.''"
    by (simp add: no_map_no_layers)
next
  assume c: "lat state = Val x" "lon state = Val y" "x \<noteq> 0" "y \<noteq> 0"
    and "new_map E x y = Inr m"
    and "flood_analysis E x y (get_default (location state) ''Selected Location'') m =
           Inl (e, m')"
    and "add_marker E m' = Inr m''"
  then have "flood_vulnerability E x y (get_default (location state) ''Selected Location'') =
      Inr (''Basic map for ('' @ repr E x @ '', '' @ repr E y @
           ''). Error in flood analysis: '' @ str_exn e, Some m'')"
    by (simp add: flood_vulnerability_def)
  from flood_vulnerability_node_present [OF c this]
  show "\<exists>cs state'. flood_vulnerability_node E state = (cs, Inr state') \<and>
         final_result state' =
           Val (''Basic map for ('' @ repr E x @ '', '' @ repr E y @
                ''). Error in flood analysis: '' @ str_exn e)"
    by simp
next
  assume c: "lat state = Val x" "lon state = Val y" "x \<noteq> 0" "y \<noteq> 0"
    and "new_map E x y = Inr m"
    and "flood_analysis E x y (get_default (location state) ''Selected Location'') m =
           Inl (e, m')"
    and "add_marker E m' = Inl e'"
  then have "flood_vulnerability E x y (get_default (location state) ''Selected Location'') =
      Inr (''Error in flood_vulnerability: '' @ str_exn e', None)"
    by (simp add: flood_vulnerability_def)
  from flood_vulnerability_node_present [OF c this]
  show "\<exists>cs state' payload. flood_vulnerability_node E state = (cs, Inr state') \<and>
         final_result state' = Val (''Error in flood_vulnerability: '' @ str_exn e') \<and>
         map_data state' = Val payload \<and>
         error payload = Some ''Could not load map layers. Please try again.''"
    by (simp add: no_map_no_layers)
next
  assume "add_layers E m = Inl (e, m')"
  then show "flood_analysis E x y name m = Inl (e, m')"
    by (simp add: flood_analysis_def)
next
  assume "add_layers E m = Inr ml" "reduce_region E x y = Inl e"
  then show "flood_analysis E x y name m = Inl (e, ml)"
    by (simp add: flood_analysis_def)
next
  assume "add_layers E m = Inr ml" "reduce_region E x y = Inr stats"
    "stats ''depth'' = None \<or> stats ''depth'' = Some (Num v)" "center_object E ml = Inl e"
  then show "flood_analysis E x y name m = Inl (e, ml)"
    by (auto simp: flood_analysis_def)
next
  assume "subscript (input state) ''input'' = Inr inp" "intent_chain E inp = Inr result"
  then show "\<exists>cs state'. intent_node E state = (cs, Inr state')"
    by (simp add: intent_node_result)
next
  assume "subscript (input state) ''input'' = Inr inp" "geo_chain E inp = Inr result"
  then show "\<exists>cs state'. geo_query_node E state = (cs, Inr state')"
    using geo_query_node_returns by blast
next
  assume "subscript (input state) ''input'' = Inr inp" "intent_chain E inp = Inl e"
  then show "snd (intent_node E state) = Inl e"
    by (simp add: intent_node_result)
next
  assume a: "subscript (input state) ''input'' = Inr inp" "intent_chain E inp = Inl e"
  then have "subscript (input (declared state)) ''input'' = Inr inp"
    by (simp add: declared_def)
  with a show "outcome (workflow E state) = Inl e"
    by (simp add: workflow_def enter_def intent_node_result)
next
  assume "subscript (input state) ''input'' = Inr inp" "geo_chain E inp = Inl e"
  then show "snd (geo_query_node E state) = Inl e"
    by (simp add: geo_query_node_result)
qed

theorem nodes_and_failures_counterexample:
  "outcome (workflow (scripted_env (Inl (External ''Rate limit reached'')) (Inr ''ASK_LOCATION'')
                        (Inr None))
              (fresh_state ''Is Chennai flood prone?'')) =
     Inl (External ''Rate limit reached'')"
  by code_simp

theorem nodes_and_failures_witness:
  "get (location located_state) = Some ''Chennai'' \<and>
   geocode offline_env (''Chennai'' @ '', India'') = Inl (External ''Service timed out'') \<and>
   snd (location_helper_node offline_env located_state) = Inr located_state \<and>
   lat located_state = Val 13.0827 \<and> lon located_state = Val 80.2707 \<and>
   (13.0827 :: real) \<noteq> 0 \<and> (80.2707 :: real) \<noteq> 0 \<and>
   new_map offline_env 13.0827 80.2707 =
     Inl (External ''Earth Engine client library not initialized.'') \<and>
   (\<exists>cs state' payload.
      flood_vulnerability_node offline_env located_state = (cs, Inr state') \<and>
      final_result state' =
        Val (''Error in flood_vulnerability: '' @
             str_exn (External ''Earth Engine client library not initialized.'')) \<and>
      map_data state' = Val payload \<and>
      error payload = Some ''Could not load map layers. Please try again.'') \<and>
   add_layers (with_failure (with_platform offline_env []) ''add_layers''
                 (External ''Dataset not found'')) [None, None] =
     Inl (External ''Dataset not found'', [None, None]) \<and>
   flood_analysis (with_failure (with_platform offline_env []) ''add_layers''
                     (External ''Dataset not found''))
       13.0827 80.2707 (Some ''Chennai'') [None, None] =
     Inl (External ''Dataset not found'', [None, None]) \<and>
   reduce_region (with_failure (with_platform offline_env []) ''reduce_region''
                    (External ''Quota exceeded'')) 13.0827 80.2707 =
     Inl (External ''Quota exceeded'') \<and>
   (\<exists>cs state'.
      flood_vulnerability_node
          (with_failure (with_platform offline_env []) ''reduce_region''
             (External ''Quota exceeded''))
          located_state = (cs, Inr state') \<and>
      final_result state' =
        Val (''Basic map for ('' @
             repr (with_failure (with_platform offline_env []) ''reduce_region''
                     (External ''Quota exceeded'')) 13.0827 @ '', '' @
             repr (with_failure (with_platform offline_env []) ''reduce_region''
                     (External ''Quota exceeded'')) 80.2707 @
             ''). Error in flood analysis: '' @ str_exn (External ''Quota exceeded''))) \<and>
   center_object (with_failure (with_platform offline_env []) ''center_object''
                    (External ''Connection reset''))
       [None, None, Some ''tiles/flood'', Some ''tiles/elevation'', Some ''tiles/point''] =
     Inl (External ''Connection reset'') \<and>
   flood_analysis (with_failure (with_platform offline_env []) ''center_object''
                     (External ''Connection reset''))
       13.0827 80.2707 (Some ''Chennai'') [None, None] =
     Inl (External ''Connection reset'',
          [None, None, Some ''tiles/flood'', Some ''tiles/elevation'', Some ''tiles/point'']) \<and>
   add_marker (with_failure (with_failure (with_platform offline_env []) ''reduce_region''
                               (External ''Quota exceeded''))
                 ''add_marker'' (External ''Connection reset''))
       [None, None, Some ''tiles/flood'', Some ''tiles/elevation'', Some ''tiles/point''] =
     Inl (External ''Connection reset'') \<and>
   (\<exists>cs state' payload.
      flood_vulnerability_node
          (with_failure (with_failure (with_platform offline_env []) ''reduce_region''
                           (External ''Quota exceeded''))
             ''add_marker'' (External ''Connection reset''))
          located_state = (cs, Inr state') \<and>
      final_result state' =
        Val (''Error in flood_vulnerability: '' @ str_exn (External ''Connection reset'')) \<and>
      map_data state' = Val payload \<and>
      error payload = Some ''Could not load map layers. Please try again.'') \<and>
   subscript (input located_state) ''input'' = Inr (Some ''Is Chennai flood prone?'') \<and>
   intent_chain offline_env (Some ''Is Chennai flood prone?'') = Inr (Plain ''query'') \<and>
   (\<exists>cs state'. intent_node offline_env located_state = (cs, Inr state')) \<and>
   geo_chain offline_env (Some ''Is Chennai flood prone?'') =
     Inl (External ''Rate limit reached'') \<and>
   snd (geo_query_node offline_env located_state) = Inl (External ''Rate limit reached'') \<and>
   geo_chain (scripted_env (Inl (External ''Rate limit reached'')) (Inr ''ASK_LOCATION'')
                (Inr None))
       (Some ''Is Chennai flood prone?'') = Inr (Plain ''ASK_LOCATION'') \<and>
   (\<exists>cs state'.
      geo_query_node (scripted_env (Inl (External ''Rate limit reached''))
                        (Inr ''ASK_LOCATION'') (Inr None))
          located_state = (cs, Inr state')) \<and>
   intent_chain (scripted_env (Inl (External ''Rate limit reached'')) (Inr ''ASK_LOCATION'')
                   (Inr None))
       (Some ''Is Chennai flood prone?'') = Inl (External ''Rate limit reached'') \<and>
   snd (intent_node (scripted_env (Inl (External ''Rate limit reached''))
                       (Inr ''ASK_LOCATION'') (Inr None))
          located_state) = Inl (External ''Rate limit reached'') \<and>
   outcome (workflow (scripted_env (Inl (External ''Rate limit reached''))
                        (Inr ''ASK_LOCATION'') (Inr None))
              located_state) = Inl (External ''Rate limit reached'')"
proof -
  let ?s = located_state
  let ?x = "13.0827 :: real" and ?y = "80.2707 :: real"
  let ?m = "[None, None] :: geemap_Map"
  let ?m1 = "[None, None, Some ''tiles/flood'', Some ''tiles/elevation'', Some ''tiles/point'']"
  let ?EL = "with_failure (with_platform offline_env []) ''add_layers''
               (External ''Dataset not found'')"
  let ?ER = "with_failure (with_platform offline_env []) ''reduce_region''
               (External ''Quota exceeded'')"
  let ?EC = "with_failure (with_platform offline_env []) ''center_object''
               (External ''Connection reset'')"
  let ?EM = "with_failure ?ER ''add_marker'' (External ''Connection reset'')"
  let ?EI = "scripted_env (Inl (External ''Rate limit reached'')) (Inr ''ASK_LOCATION'')
               (Inr None)"
  have loc: "get (location ?s) = Some ''Chennai''" by (simp add: located_state_def)
  have name: "get_default (location ?s) ''Selected Location'' = Some ''Chennai''"
    by (simp add: located_state_def)
  have geo: "geocode offline_env (''Chennai'' @ '', India'') = Inl (External ''Service timed out'')"
    by (simp add: offline_env_def scripted_env_def)
  have co: "lat ?s = Val ?x" "lon ?s = Val ?y" by (simp_all add: located_state_def)
  have nz: "?x \<noteq> 0" "?y \<noteq> 0" by simp_all
  have nm: "new_map offline_env ?x ?y =
      Inl (External ''Earth Engine client library not initialized.'')"
    by (simp add: offline_env_def scripted_env_def)
  have sub: "subscript (input ?s) ''input'' = Inr (Some ''Is Chennai flood prone?'')"
    by (simp add: located_state_def fresh_state_def)
  have ic: "intent_chain offline_env (Some ''Is Chennai flood prone?'') = Inr (Plain ''query'')"
    by (simp add: offline_env_def scripted_env_def)
  have gc: "geo_chain offline_env (Some ''Is Chennai flood prone?'') =
      Inl (External ''Rate limit reached'')"
    by (simp add: offline_env_def scripted_env_def)
  have gc': "geo_chain ?EI (Some ''Is Chennai flood prone?'') = Inr (Plain ''ASK_LOCATION'')"
    by (simp add: scripted_env_def)
  have ic': "intent_chain ?EI (Some ''Is Chennai flood prone?'') =
      Inl (External ''Rate limit reached'')"
    by (simp add: scripted_env_def)
  have al: "add_layers ?EL ?m = Inl (External ''Dataset not found'', ?m)"
    by (simp add: with_failure_def)
  have nmR: "new_map ?ER ?x ?y = Inr ?m" by (simp add: with_failure_def with_platform_def)
  have alR: "add_layers ?ER ?m = Inr ?m1" by (simp add: with_failure_def with_platform_def)
  have rr: "reduce_region ?ER ?x ?y = Inl (External ''Quota exceeded'')"
    by (simp add: with_failure_def)
  have amR: "add_marker ?ER ?m1 = Inr ?m1" by (simp add: with_failure_def with_platform_def)
  have alC: "add_layers ?EC ?m = Inr ?m1" by (simp add: with_failure_def with_platform_def)
  have rrC: "reduce_region ?EC ?x ?y = Inr (map_of [])"
    by (simp add: with_failure_def with_platform_def)
  have dC: "map_of ([] :: (string \<times> stat) list) ''depth'' = None \<or>
            map_of ([] :: (string \<times> stat) list) ''depth'' = Some (Num 0)" by simp
  have cc: "center_object ?EC ?m1 = Inl (External ''Connection reset'')"
    by (simp add: with_failure_def)
  have nmM: "new_map ?EM ?x ?y = Inr ?m" by (simp add: with_failure_def with_platform_def)
  have alM: "add_layers ?EM ?m = Inr ?m1" by (simp add: with_failure_def with_platform_def)
  have rrM: "reduce_region ?EM ?x ?y = Inl (External ''Quota exceeded'')"
    by (simp add: with_failure_def)
  have amM: "add_marker ?EM ?m1 = Inl (External ''Connection reset'')"
    by (simp add: with_failure_def)
  have 1: "snd (location_helper_node offline_env ?s) = Inr ?s"
    by (rule nodes_and_failures [where E = offline_env and state = ?s, THEN conjunct2, THEN conjunct1, rule_format, OF loc geo])
  have 2: "\<exists>cs state' payload.
      flood_vulnerability_node offline_env ?s = (cs, Inr state') \<and>
      final_result state' =
        Val (''Error in flood_vulnerability: '' @
             str_exn (External ''Earth Engine client library not initialized.'')) \<and>
      map_data state' = Val payload \<and>
      error payload = Some ''Could not load map layers. Please try again.''"
    by (rule nodes_and_failures [where E = offline_env and state = ?s, THEN conjunct2, THEN conjunct2, THEN conjunct2, THEN conjunct1, rule_format, OF co nz nm])
  have 3: "flood_analysis ?EL ?x ?y (Some ''Chennai'') ?m =
      Inl (External ''Dataset not found'', ?m)"
    by (rule nodes_and_failures [where E = ?EL, THEN conjunct2, THEN conjunct2, THEN conjunct2, THEN conjunct2, THEN conjunct2, THEN conjunct2, THEN conjunct1, rule_format, OF al])
  have fa: "flood_analysis ?ER ?x ?y (get_default (location ?s) ''Selected Location'') ?m =
      Inl (External ''Quota exceeded'', ?m1)"
    by (rule nodes_and_failures [where E = ?ER, THEN conjunct2, THEN conjunct2, THEN conjunct2, THEN conjunct2, THEN conjunct2, THEN conjunct2, THEN conjunct2, THEN conjunct1, rule_format, OF alR rr])
  have 4: "\<exists>cs state'.
      flood_vulnerability_node ?ER ?s = (cs, Inr state') \<and>
      final_result state' =
        Val (''Basic map for ('' @ repr ?ER ?x @ '', '' @ repr ?ER ?y @
             ''). Error in flood analysis: '' @ str_exn (External ''Quota exceeded''))"
    by (rule nodes_and_failures [where E = ?ER and state = ?s, THEN conjunct2, THEN conjunct2, THEN conjunct2, THEN conjunct2, THEN conjunct1, rule_format, OF co nz nmR fa amR])
  have 5: "flood_analysis ?EC ?x ?y (Some ''Chennai'') ?m =
      Inl (External ''Connection reset'', ?m1)"
    by (rule nodes_and_failures [where E = ?EC, THEN conjunct2, THEN conjunct2, THEN conjunct2, THEN conjunct2, THEN conjunct2, THEN conjunct2, THEN conjunct2, THEN conjunct2, THEN conjunct1, rule_format, OF alC rrC dC cc])
  have faM: "flood_analysis ?EM ?x ?y (get_default (location ?s) ''Selected Location'') ?m =
      Inl (External ''Quota exceeded'', ?m1)"
    by (rule nodes_and_failures [where E = ?EM, THEN conjunct2, THEN conjunct2, THEN conjunct2, THEN conjunct2, THEN conjunct2, THEN conjunct2, THEN conjunct2, THEN conjunct1, rule_format, OF alM rrM])
  have 6: "\<exists>cs state' payload.
      flood_vulnerability_node ?EM ?s = (cs, Inr state') \<and>
      final_result state' =
        Val (''Error in flood_vulnerability: '' @ str_exn (External ''Connection reset'')) \<and>
      map_data state' = Val payload \<and>
      error payload = Some ''Could not load map layers. Please try again.''"
    by (rule nodes_and_failures [where E = ?EM and state = ?s, THEN conjunct2, THEN conjunct2, THEN conjunct2, THEN conjunct2, THEN conjunct2, THEN conjunct1, rule_format, OF co nz nmM faM amM])
  have 7: "\<exists>cs state'. intent_node offline_env ?s = (cs, Inr state')"
    by (rule nodes_and_failures [where E = offline_env and state = ?s, THEN conjunct2, THEN conjunct2, THEN conjunct2, THEN conjunct2, THEN conjunct2, THEN conjunct2, THEN conjunct2, THEN conjunct2, THEN conjunct2, THEN conjunct1, rule_format, OF sub ic])
  have 8: "snd (geo_query_node offline_env ?s) = Inl (External ''Rate limit reached'')"
    by (rule nodes_and_failures [where E = offline_env and state = ?s, THEN conjunct2, THEN conjunct2, THEN conjunct2, THEN conjunct2, THEN conjunct2, THEN conjunct2, THEN conjunct2, THEN conjunct2, THEN conjunct2, THEN conjunct2, THEN conjunct2, THEN conjunct2, rule_format, OF sub gc])
  have 9: "\<exists>cs state'. geo_query_node ?EI ?s = (cs, Inr state')"
    by (rule nodes_and_failures [where E = ?EI and state = ?s, THEN conjunct2, THEN conjunct2, THEN conjunct2, THEN conjunct2, THEN conjunct2, THEN conjunct2, THEN conjunct2, THEN conjunct2, THEN conjunct2, THEN conjunct2, THEN conjunct1, rule_format, OF sub gc'])
  have 10: "snd (intent_node ?EI ?s) = Inl (External ''Rate limit reached'')"
    by (rule nodes_and_failures [where E = ?EI and state = ?s, THEN conjunct2, THEN conjunct2, THEN conjunct2, THEN conjunct2, THEN conjunct2, THEN conjunct2, THEN conjunct2, THEN conjunct2, THEN conjunct2, THEN conjunct2, THEN conjunct2, THEN conjunct1, rule_format, OF sub ic', THEN conjunct1])
  have 11: "outcome (workflow ?EI ?s) = Inl (External ''Rate limit reached'')"
    by (rule nodes_and_failures [where E = ?EI and state = ?s, THEN conjunct2, THEN conjunct2, THEN conjunct2, THEN conjunct2, THEN conjunct2, THEN conjunct2, THEN conjunct2, THEN conjunct2, THEN conjunct2, THEN conjunct2, THEN conjunct2, THEN conjunct1, rule_format, OF sub ic', THEN conjunct2])
  from loc geo 1 co nz nm 2 al 3 rr 4 cc 5 amM 6 sub ic 7 gc 8 gc' 9 ic' 10 11
  show ?thesis by (intro conjI) assumption+
qed

subsection \<open>What each node leaves alone\<close>

text \<open>
  C8. A node that returns leaves every field but its own as it found it: the classifier
  writes \<^verbatim>\<open>intent\<close> only, the extractor \<^verbatim>\<open>location\<close> and \<^verbatim>\<open>analysis\<close>
  only, the resolver \<^verbatim>\<open>lat\<close> and \<^verbatim>\<open>lon\<close> only, and the last node the result
  text and the map, held under \<^verbatim>\<open>final_result\<close>, \<^verbatim>\<open>map_object\<close> and
  \<^verbatim>\<open>map_data\<close>. No node changes \<^verbatim>\<open>input\<close>.
\<close>

theorem nodes_frame:
  "(snd (intent_node E state) = Inr state' \<longrightarrow>
      input state' = input state \<and> location state' = location state \<and>
      analysis state' = analysis state \<and> lat state' = lat state \<and> lon state' = lon state \<and>
      final_result state' = final_result state \<and> map_object state' = map_object state \<and>
      map_data state' = map_data state) \<and>
   (snd (geo_query_node E state) = Inr state' \<longrightarrow>
      input state' = input state \<and> intent state' = intent state \<and>
      lat state' = lat state \<and> lon state' = lon state \<and>
      final_result state' = final_result state \<and> map_object state' = map_object state \<and>
      map_data state' = map_data state) \<and>
   (snd (location_helper_node E state) = Inr state' \<longrightarrow>
      input state' = input state \<and> intent state' = intent state \<and>
      location state' = location state \<and> analysis state' = analysis state \<and>
      final_result state' = final_result state \<and> map_object state' = map_object state \<and>
      map_data state' = map_data state) \<and>
   (snd (flood_vulnerability_node E state) = Inr state' \<longrightarrow>
      input state' = input state \<and> intent state' = intent state \<and>
      location state' = location state \<and> analysis state' = analysis state \<and>
      lat state' = lat state \<and> lon state' = lon state)"
proof (intro conjI impI)
  assume "snd (intent_node E state) = Inr state'"
  then show "input state' = input state" "location state' = location state"
    "analysis state' = analysis state" "lat state' = lat state" "lon state' = lon state"
    "final_result state' = final_result state" "map_object state' = map_object state"
    "map_data state' = map_data state"
    by (auto simp: intent_node_def Let_def split: sum.splits if_splits)
next
  assume "snd (geo_query_node E state) = Inr state'"
  then show "input state' = input state" "intent state' = intent state"
    "lat state' = lat state" "lon state' = lon state"
    "final_result state' = final_result state" "map_object state' = map_object state"
    "map_data state' = map_data state"
    by (auto simp: geo_query_node_def Let_def split: sum.splits if_splits prod.splits)
next
  assume "snd (location_helper_node E state) = Inr state'"
  then show "input state' = input state" "intent state' = intent state"
    "location state' = location state" "analysis state' = analysis state"
    "final_result state' = final_result state" "map_object state' = map_object state"
    "map_data state' = map_data state"
    by (auto simp: location_helper_node_def split: sum.splits if_splits option.splits)
next
  assume "snd (flood_vulnerability_node E state) = Inr state'"
  then show "input state' = input state" "intent state' = intent state"
    "location state' = location state" "analysis state' = analysis state"
    "lat state' = lat state" "lon state' = lon state"
    by (auto simp: flood_vulnerability_node_def Let_def
        split: sum.splits if_splits prod.splits)
qed

theorem nodes_frame_witness:
  "(\<exists>s1. snd (intent_node
                (with_platform
                   (scripted_env (Inr ''query'')
                      (Inr ''Location: Chennai\<newline>Analysis: flood risk'')
                      (Inr (Some (13.0827, 80.2707))))
                   [(''depth'', Num 0.3)])
                (fresh_state ''Is Chennai flood prone?'')) = Inr s1 \<and>
      input s1 = Val ''Is Chennai flood prone?'' \<and> location s1 = Absent \<and>
      (\<exists>s2. snd (geo_query_node
                   (with_platform
                      (scripted_env (Inr ''query'')
                         (Inr ''Location: Chennai\<newline>Analysis: flood risk'')
                         (Inr (Some (13.0827, 80.2707))))
                      [(''depth'', Num 0.3)])
                   s1) = Inr s2 \<and>
         input s2 = Val ''Is Chennai flood prone?'' \<and> intent s2 = intent s1 \<and>
         (\<exists>s3. snd (location_helper_node
                      (with_platform
                         (scripted_env (Inr ''query'')
                            (Inr ''Location: Chennai\<newline>Analysis: flood risk'')
                            (Inr (Some (13.0827, 80.2707))))
                         [(''depth'', Num 0.3)])
                      s2) = Inr s3 \<and>
            input s3 = Val ''Is Chennai flood prone?'' \<and> location s3 = location s2 \<and>
            (\<exists>s4. snd (flood_vulnerability_node
                         (with_platform
                            (scripted_env (Inr ''query'')
                               (Inr ''Location: Chennai\<newline>Analysis: flood risk'')
                               (Inr (Some (13.0827, 80.2707))))
                            [(''depth'', Num 0.3)])
                         s3) = Inr s4 \<and>
               input s4 = Val ''Is Chennai flood prone?'' \<and> lat s4 = lat s3 \<and>
               lon s4 = lon s3))))"
proof -
  let ?E = "with_platform
              (scripted_env (Inr ''query'')
                 (Inr ''Location: Chennai\<newline>Analysis: flood risk'')
                 (Inr (Some (13.0827, 80.2707))))
              [(''depth'', Num 0.3)]"
  let ?s0 = "fresh_state ''Is Chennai flood prone?''"
  have i0: "input ?s0 = Val ''Is Chennai flood prone?''" "location ?s0 = Absent"
    by (simp_all add: fresh_state_def)
  have sub: "subscript (input ?s0) ''input'' = Inr (Some ''Is Chennai flood prone?'')"
    by (simp add: fresh_state_def)
  have "intent_chain ?E (Some ''Is Chennai flood prone?'') = Inr (Plain ''query'')"
    by (simp add: with_platform_def scripted_env_def)
  with sub obtain s1 where 1: "snd (intent_node ?E ?s0) = Inr s1"
    by (simp add: intent_node_result)
  from nodes_frame [of ?E ?s0 s1] 1 i0
  have f1: "input s1 = Val ''Is Chennai flood prone?''" "location s1 = Absent" by simp_all
  then have sub1: "subscript (input s1) ''input'' = Inr (Some ''Is Chennai flood prone?'')"
    by simp
  have "geo_chain ?E (Some ''Is Chennai flood prone?'') =
          Inr (Plain ''Location: Chennai\<newline>Analysis: flood risk'')"
    by (simp add: with_platform_def scripted_env_def)
  from geo_query_node_returns [OF sub1 this]
  obtain s2 where 2: "snd (geo_query_node ?E s1) = Inr s2" by auto
  from nodes_frame [of ?E s1 s2] 2 f1
  have f2: "input s2 = Val ''Is Chennai flood prone?''" "intent s2 = intent s1" by simp_all
  from location_helper_node_returns [of ?E s2]
  obtain s3 where 3: "snd (location_helper_node ?E s2) = Inr s3" by auto
  from nodes_frame [of ?E s2 s3] 3 f2
  have f3: "input s3 = Val ''Is Chennai flood prone?''" "location s3 = location s2"
    by simp_all
  from flood_vulnerability_node_returns [of ?E s3]
  obtain s4 where 4: "snd (flood_vulnerability_node ?E s3) = Inr s4" by auto
  from nodes_frame [of ?E s3 s4] 4 f3
  have f4: "input s4 = Val ''Is Chennai flood prone?''" "lat s4 = lat s3" "lon s4 = lon s3"
    by simp_all
  from 1 f1 2 f2 3 f3 4 f4 show ?thesis by blast
qed

subsection \<open>Routing after the classifier\<close>

lemma declared_fields:
  "input (declared state) = input state" "intent (declared state) = intent state"
  "location (declared state) = location state" "analysis (declared state) = analysis state"
  "lat (declared state) = lat state" "lon (declared state) = lon state"
  "final_result (declared state) = final_result state"
  "map_object (declared state) = map_object state" "map_data (declared state) = Absent"
  by (simp_all add: declared_def)

lemma declared_twice: "declared (declared state) = declared state"
  by (simp add: declared_def)

lemma declared_intent: "declared (declared state\<lparr>intent := i\<rparr>) = declared (state\<lparr>intent := i\<rparr>)"
  by (simp add: declared_def)

lemma enter_intent:
  assumes "subscript (input state) ''input'' = Inr inp" and "intent_chain E inp = Inr reply"
  shows "enter ''intent'' (intent_node E)
           \<lparr>visited = [], calls = [], outcome = Inr (declared state)\<rparr> =
           \<lparr>visited = [''intent''], calls = [Intent_chain inp],
            outcome = Inr (declared (state\<lparr>intent := if intent_text reply = ''normal'' \<or>
                                                         intent_text reply = ''query''
                                                      then Val (intent_text reply)
                                                      else Null\<rparr>))\<rparr>"
proof -
  from assms(1) have "subscript (input (declared state)) ''input'' = Inr inp"
    by (simp add: declared_fields)
  from intent_node_result [OF this, of E] assms(2) show ?thesis
    by (simp add: enter_def declared_intent)
qed

lemma length_visited_enter: "length (visited t) \<le> length (visited (enter n f t))"
  by (simp add: enter_def split: sum.splits)

lemma take_visited_enter:
  "k \<le> length (visited t) \<Longrightarrow> take k (visited (enter n f t)) = take k (visited t)"
  by (simp add: enter_def split: sum.splits)

lemma workflow_not_normal:
  assumes "subscript (input state) ''input'' = Inr inp" and "intent_chain E inp = Inr reply"
    and "intent_text reply \<noteq> ''normal''"
  shows "workflow E state =
           enter ''flood_vulnerability'' (flood_vulnerability_node E)
             (enter ''location_helper'' (location_helper_node E)
                (enter ''geo_query'' (geo_query_node E)
                   \<lparr>visited = [''intent''], calls = [Intent_chain inp],
                    outcome = Inr (declared (state\<lparr>intent := if intent_text reply = ''query''
                                                               then Val ''query''
                                                               else Null\<rparr>))\<rparr>))"
  using assms(3)
  by (simp add: workflow_def enter_intent [OF assms(1,2)] route_def Let_def declared_fields)

lemma visits_geo_query:
  assumes "subscript (input state) ''input'' = Inr inp" and "intent_chain E inp = Inr reply"
    and "intent_text reply \<noteq> ''normal''"
  shows "take 2 (visited (workflow E state)) = [''intent'', ''geo_query'']"
proof -
  let ?t1 = "\<lparr>visited = [''intent''], calls = [Intent_chain inp],
       outcome = Inr (declared (state\<lparr>intent := if intent_text reply = ''query''
                                                  then Val ''query'' else Null\<rparr>))\<rparr>"
  let ?t2 = "enter ''geo_query'' (geo_query_node E) ?t1"
  let ?t3 = "enter ''location_helper'' (location_helper_node E) ?t2"
  have w: "workflow E state = enter ''flood_vulnerability'' (flood_vulnerability_node E) ?t3"
    using assms by (rule workflow_not_normal)
  have v2: "visited ?t2 = [''intent'', ''geo_query'']" by (simp add: enter_def)
  have l3: "2 \<le> length (visited ?t3)"
    using length_visited_enter [of ?t2 "''location_helper''" "location_helper_node E"]
    by (simp only: v2) simp
  have "take 2 (visited (workflow E state)) = take 2 (visited ?t3)"
    unfolding w using l3 by (rule take_visited_enter)
  also have "\<dots> = take 2 (visited ?t2)"
    by (rule take_visited_enter) (simp add: v2)
  also have "\<dots> = [''intent'', ''geo_query'']" by (simp add: v2)
  finally show ?thesis .
qed

text \<open>
  C2, at the code. The classifier's reply is a message object, and \<^verbatim>\<open>intent_node\<close>
  takes \<^verbatim>\<open>str(result)\<close> of it, not its \<^verbatim>\<open>content\<close>. Whatever the content says,
  \<^verbatim>\<open>normal\<close> included, the intent stored is \<^verbatim>\<open>None\<close> unless the printed message,
  stripped, is itself one of the two words, and unless it is \<^verbatim>\<open>normal\<close> the run goes
  on to \<^verbatim>\<open>geo_query\<close> instead of ending after \<^verbatim>\<open>intent\<close>.
\<close>

theorem message_reply_routed_on:
  assumes "subscript (input state) ''input'' = Inr inp"
    and "intent_chain E inp = Inr (Message content rendering)"
    and "strip rendering \<noteq> ''normal''"
  shows "snd (intent_node E state) =
           Inr (state\<lparr>intent := if strip rendering = ''query'' then Val ''query'' else Null\<rparr>) \<and>
         take 2 (visited (workflow E state)) = [''intent'', ''geo_query'']"
proof
  have t: "intent_text (Message content rendering) = strip rendering"
    by (simp add: intent_text_def strip_def)
  from assms show "snd (intent_node E state) =
      Inr (state\<lparr>intent := if strip rendering = ''query'' then Val ''query'' else Null\<rparr>)"
    by (simp add: intent_node_result t)
  from assms(3) have "intent_text (Message content rendering) \<noteq> ''normal''"
    by (simp add: t)
  with assms(1,2) show "take 2 (visited (workflow E state)) = [''intent'', ''geo_query'']"
    by (rule visits_geo_query)
qed

theorem message_reply_routed_on_witness:
  "subscript (input (fresh_state ''Good morning!'')) ''input'' = Inr (Some ''Good morning!'') \<and>
   intent_chain (with_intent_reply
                   (scripted_env (Inr ''normal'') (Inr ''ASK_LOCATION'') (Inr None))
                   (message ''normal''))
       (Some ''Good morning!'') =
     Inr (Message (Some ''normal'')
            (''content='' @ [CHR 0x27] @ ''normal'' @ [CHR 0x27] @
             '' additional_kwargs={} response_metadata={}'')) \<and>
   strip (''content='' @ [CHR 0x27] @ ''normal'' @ [CHR 0x27] @
          '' additional_kwargs={} response_metadata={}'') \<noteq> ''normal'' \<and>
   lower (strip ''normal'') = ''normal'' \<and>
   snd (intent_node (with_intent_reply
                       (scripted_env (Inr ''normal'') (Inr ''ASK_LOCATION'') (Inr None))
                       (message ''normal''))
          (fresh_state ''Good morning!'')) =
     Inr ((fresh_state ''Good morning!'')\<lparr>intent := Null\<rparr>) \<and>
   take 2 (visited (workflow (with_intent_reply
                                (scripted_env (Inr ''normal'') (Inr ''ASK_LOCATION'') (Inr None))
                                (message ''normal''))
                      (fresh_state ''Good morning!''))) =
     [''intent'', ''geo_query'']"
proof -
  let ?E = "with_intent_reply (scripted_env (Inr ''normal'') (Inr ''ASK_LOCATION'') (Inr None))
              (message ''normal'')"
  let ?r = "''content='' @ [CHR 0x27] @ ''normal'' @ [CHR 0x27] @
            '' additional_kwargs={} response_metadata={}''"
  let ?s = "fresh_state ''Good morning!''"
  have h1: "subscript (input ?s) ''input'' = Inr (Some ''Good morning!'')"
    by (simp add: fresh_state_def)
  have h2: "intent_chain ?E (Some ''Good morning!'') = Inr (Message (Some ''normal'') ?r)"
    by (simp add: with_intent_reply_def message_def)
  have h3: "strip ?r \<noteq> ''normal''" by code_simp
  have h4: "strip ?r \<noteq> ''query''" by code_simp
  have h5: "lower (strip ''normal'') = ''normal''" by code_simp
  note r = message_reply_routed_on [OF h1 h2 h3]
  from r [THEN conjunct1] h4 have 1: "snd (intent_node ?E ?s) = Inr (?s\<lparr>intent := Null\<rparr>)"
    by (simp only: if_False)
  note 2 = r [THEN conjunct2]
  from h1 h2 h3 h5 1 2 show ?thesis by (intro conjI) assumption+
qed

subsection \<open>A turn in which the extractor asks for more\<close>

text \<open>
  C1, at the code. The classifier does not say \<^verbatim>\<open>normal\<close>, the extractor's reply
  contains \<^verbatim>\<open>ASK_LOCATION\<close> or \<^verbatim>\<open>ASK_ANALYSIS\<close>, and the state has no location
  and no latitude. \<^verbatim>\<open>geo_query_node\<close> returns the state as it is, and neither the
  geocoder nor \<^verbatim>\<open>flood_vulnerability\<close> is called; but the fixed edges of lines
  391-393 carry the run on through \<^verbatim>\<open>location_helper\<close> and
  \<^verbatim>\<open>flood_vulnerability\<close>, and the state the graph returns has the
  missing-coordinates text written into \<^verbatim>\<open>final_result\<close>.
\<close>

theorem clarification_turn_runs_on:
  assumes "subscript (input state) ''input'' = Inr inp"
    and "intent_chain E inp = Inr reply" and "intent_text reply \<noteq> ''normal''"
    and "geo_chain E inp = Inr answer"
    and "contains (answer_text answer) ''ASK_LOCATION'' \<or>
         contains (answer_text answer) ''ASK_ANALYSIS''"
    and "not_text (get (location state))" and "get (lat state) = None"
  shows "visited (workflow E state) =
           [''intent'', ''geo_query'', ''location_helper'', ''flood_vulnerability''] \<and>
         calls (workflow E state) = [Intent_chain inp, Geo_chain inp] \<and>
         (\<exists>state'.
            outcome (workflow E state) = Inr state' \<and>
            input state' = input state \<and>
            location state' = location state \<and> analysis state' = analysis state \<and>
            lat state' = lat state \<and> lon state' = lon state \<and>
            final_result state' = Val ''Missing coordinates for flood analysis'')"
proof -
  let ?s1 = "declared (state\<lparr>intent := if intent_text reply = ''query''
                                        then Val ''query'' else Null\<rparr>)"
  have sub1: "subscript (input ?s1) ''input'' = Inr inp"
    using assms(1) by (simp add: declared_fields)
  have g: "geo_query_node E ?s1 = ([Geo_chain inp], Inr ?s1)"
    using assms(4,5) by (auto simp: geo_query_node_result [OF sub1])
  have l: "location_helper_node E ?s1 = ([], Inr ?s1)"
    using assms(6) by (simp add: location_helper_node_def declared_fields)
  have "not_float (get (lat ?s1)) \<or> not_float (get (lon ?s1))"
    using assms(7) by (simp add: declared_fields)
  note f = missing_coordinates_branch [OF this, of E]
  show ?thesis
    unfolding workflow_not_normal [OF assms(1,2,3)]
    by (simp add: enter_def g l f declared_twice declared_fields)
qed

theorem clarification_turn_runs_on_witness:
  "subscript (input (fresh_state ''Is it flood prone?'')) ''input'' =
     Inr (Some ''Is it flood prone?'') \<and>
   intent_chain (scripted_env (Inr ''query'') (Inr ''ASK_LOCATION'') (Inr None))
       (Some ''Is it flood prone?'') = Inr (Plain ''query'') \<and>
   intent_text (Plain ''query'') \<noteq> ''normal'' \<and>
   geo_chain (scripted_env (Inr ''query'') (Inr ''ASK_LOCATION'') (Inr None))
       (Some ''Is it flood prone?'') = Inr (Plain ''ASK_LOCATION'') \<and>
   contains (answer_text (Plain ''ASK_LOCATION'')) ''ASK_LOCATION'' \<and>
   not_text (get (location (fresh_state ''Is it flood prone?''))) \<and>
   get (lat (fresh_state ''Is it flood prone?'')) = None \<and>
   visited (workflow (scripted_env (Inr ''query'') (Inr ''ASK_LOCATION'') (Inr None))
              (fresh_state ''Is it flood prone?'')) =
     [''intent'', ''geo_query'', ''location_helper'', ''flood_vulnerability''] \<and>
   (\<exists>state'. outcome (workflow (scripted_env (Inr ''query'') (Inr ''ASK_LOCATION'') (Inr None))
                        (fresh_state ''Is it flood prone?'')) = Inr state' \<and>
      final_result state' = Val ''Missing coordinates for flood analysis'')"
proof -
  let ?s = "fresh_state ''Is it flood prone?''"
  let ?E = "scripted_env (Inr ''query'') (Inr ''ASK_LOCATION'') (Inr None)"
  have h1: "subscript (input ?s) ''input'' = Inr (Some ''Is it flood prone?'')"
    by (simp add: fresh_state_def)
  have h2: "intent_chain ?E (Some ''Is it flood prone?'') = Inr (Plain ''query'')"
    by (simp add: scripted_env_def)
  have h3: "intent_text (Plain ''query'') \<noteq> ''normal''" by code_simp
  have h4: "geo_chain ?E (Some ''Is it flood prone?'') = Inr (Plain ''ASK_LOCATION'')"
    by (simp add: scripted_env_def)
  have h5: "contains (answer_text (Plain ''ASK_LOCATION'')) ''ASK_LOCATION''" by code_simp
  then have h5': "contains (answer_text (Plain ''ASK_LOCATION'')) ''ASK_LOCATION'' \<or>
      contains (answer_text (Plain ''ASK_LOCATION'')) ''ASK_ANALYSIS''" ..
  have h6: "not_text (get (location ?s))" by (simp add: fresh_state_def)
  have h7: "get (lat ?s) = None" by (simp add: fresh_state_def)
  note r = clarification_turn_runs_on [OF h1 h2 h3 h4 h5' h6 h7]
  note 1 = r [THEN conjunct1]
  from r [THEN conjunct2, THEN conjunct2]
  have 2: "\<exists>state'. outcome (workflow ?E ?s) = Inr state' \<and>
      final_result state' = Val ''Missing coordinates for flood analysis''" by blast
  from h1 h2 h3 h4 h5 h6 h7 1 2 show ?thesis by (intro conjI) assumption+
qed

subsection \<open>The extractor's line scanner\<close>

text \<open>
  C5, as the code has it. For a reply without a sentinel the node stores what the line
  scanner finds, and the scanner never fails. Every line that begins with
  \<^verbatim>\<open>location:\<close>, in any case, sets the location to the stripped text after the
  label, so the last such line decides, provided its text is not empty (an empty location
  counts as not set). The analysis is the stripped text after the label of the last line
  that begins with \<^verbatim>\<open>analysis:\<close>. When no line begins with \<^verbatim>\<open>location:\<close>, the
  first non-empty line that carries neither label and contains neither
  \<^verbatim>\<open>analysis:\<close> nor \<^verbatim>\<open>reply:\<close> is the location. The reply
  \<^verbatim>\<open>Location: Chennai\<close>, newline, \<^verbatim>\<open>Analysis: flood risk\<close> gives exactly
  \<^verbatim>\<open>Chennai\<close> and \<^verbatim>\<open>flood risk\<close>.
\<close>

theorem line_scanner:
  "(\<exists>l a. parse_answer answer = Inr (l, a)) \<and>
   (split answer (CHR ''\<newline>'') = pre @ raw # post \<longrightarrow> is_location_line raw \<longrightarrow>
      label_rest raw \<noteq> [] \<longrightarrow> (\<forall>r \<in> set post. \<not> is_location_line r) \<longrightarrow>
      (\<exists>a. parse_answer answer = Inr (Some (label_rest raw), a))) \<and>
   (split answer (CHR ''\<newline>'') = pre @ raw # post \<longrightarrow> is_analysis_line raw \<longrightarrow>
      (\<forall>r \<in> set post. \<not> is_analysis_line r) \<longrightarrow>
      (\<exists>l. parse_answer answer = Inr (l, Some (label_rest raw)))) \<and>
   (split answer (CHR ''\<newline>'') = pre @ raw # post \<longrightarrow>
      (\<forall>r \<in> set pre. \<not> is_location_line r \<and> \<not> is_bare_line r) \<longrightarrow> is_bare_line raw \<longrightarrow>
      (\<forall>r \<in> set post. \<not> is_location_line r) \<longrightarrow>
      (\<exists>a. parse_answer answer = Inr (Some (strip raw), a))) \<and>
   (subscript (input state) ''input'' = Inr inp \<longrightarrow> geo_chain E inp = Inr result \<longrightarrow>
      \<not> contains (answer_text result) ''ASK_LOCATION'' \<longrightarrow>
      \<not> contains (answer_text result) ''ASK_ANALYSIS'' \<longrightarrow>
      parse_answer (answer_text result) = Inr (l, a) \<longrightarrow>
      geo_query_node E state =
        ([Geo_chain inp], Inr (state\<lparr>location := stored l, analysis := stored a\<rparr>))) \<and>
   parse_answer ''Location: Chennai\<newline>Analysis: flood risk'' =
     Inr (Some ''Chennai'', Some ''flood risk'')"
proof (intro conjI impI)
  show "\<exists>l a. parse_answer answer = Inr (l, a)" by (rule parse_answer_total)
next
  assume "split answer (CHR ''\<newline>'') = pre @ raw # post" "is_location_line raw"
    "label_rest raw \<noteq> []" "\<forall>r \<in> set post. \<not> is_location_line r"
  then show "\<exists>a. parse_answer answer = Inr (Some (label_rest raw), a)"
    using last_location_line_wins [of raw post "(None, None)" pre]
    by (simp add: parse_answer_def)
next
  assume "split answer (CHR ''\<newline>'') = pre @ raw # post" "is_analysis_line raw"
    "\<forall>r \<in> set post. \<not> is_analysis_line r"
  then show "\<exists>l. parse_answer answer = Inr (l, Some (label_rest raw))"
    using last_analysis_line_wins [of raw post "(None, None)" pre]
    by (simp add: parse_answer_def)
next
  assume "split answer (CHR ''\<newline>'') = pre @ raw # post"
    "\<forall>r \<in> set pre. \<not> is_location_line r \<and> \<not> is_bare_line r" "is_bare_line raw"
    "\<forall>r \<in> set post. \<not> is_location_line r"
  then show "\<exists>a. parse_answer answer = Inr (Some (strip raw), a)"
    using first_bare_line_taken [of pre raw post]
    by (simp add: parse_answer_def)
next
  assume "subscript (input state) ''input'' = Inr inp" "geo_chain E inp = Inr result"
    "\<not> contains (answer_text result) ''ASK_LOCATION''"
    "\<not> contains (answer_text result) ''ASK_ANALYSIS''"
    "parse_answer (answer_text result) = Inr (l, a)"
  then show "geo_query_node E state =
      ([Geo_chain inp], Inr (state\<lparr>location := stored l, analysis := stored a\<rparr>))"
    by (simp add: geo_query_node_result)
next
  show "parse_answer ''Location: Chennai\<newline>Analysis: flood risk'' =
      Inr (Some ''Chennai'', Some ''flood risk'')"
    by code_simp
qed

theorem line_scanner_counterexample:
  "label_rest ''Location: Chennai'' = ''Chennai'' \<and>
   parse_answer ''Location: Chennai\<newline>Location: Mumbai\<newline>Analysis: flood risk'' =
     Inr (Some ''Mumbai'', Some ''flood risk'')"
  by code_simp

theorem line_scanner_witness:
  "split ''Location: Chennai\<newline>Analysis: flood risk'' (CHR ''\<newline>'') =
     [] @ ''Location: Chennai'' # [''Analysis: flood risk''] \<and>
   is_location_line ''Location: Chennai'' \<and> label_rest ''Location: Chennai'' \<noteq> [] \<and>
   \<not> is_location_line ''Analysis: flood risk'' \<and>
   (\<exists>a. parse_answer ''Location: Chennai\<newline>Analysis: flood risk'' =
          Inr (Some (label_rest ''Location: Chennai''), a)) \<and>
   split ''Location: Chennai\<newline>Analysis: flood risk'' (CHR ''\<newline>'') =
     [''Location: Chennai''] @ ''Analysis: flood risk'' # [] \<and>
   is_analysis_line ''Analysis: flood risk'' \<and>
   (\<exists>l. parse_answer ''Location: Chennai\<newline>Analysis: flood risk'' =
          Inr (l, Some (label_rest ''Analysis: flood risk''))) \<and>
   split ''\<newline>Chennai\<newline>flood risk'' (CHR ''\<newline>'') = [''''] @ ''Chennai'' # [''flood risk''] \<and>
   \<not> is_location_line [] \<and> \<not> is_bare_line [] \<and> is_bare_line ''Chennai'' \<and>
   \<not> is_location_line ''flood risk'' \<and>
   (\<exists>a. parse_answer ''\<newline>Chennai\<newline>flood risk'' = Inr (Some (strip ''Chennai''), a)) \<and>
   subscript (input (fresh_state ''Is Chennai flood prone?'')) ''input'' =
     Inr (Some ''Is Chennai flood prone?'') \<and>
   geo_chain (scripted_env (Inr ''query'') (Inr ''Location: Chennai\<newline>Analysis: flood risk'')
                (Inr None))
       (Some ''Is Chennai flood prone?'') =
     Inr (Plain ''Location: Chennai\<newline>Analysis: flood risk'') \<and>
   \<not> contains (answer_text (Plain ''Location: Chennai\<newline>Analysis: flood risk'')) ''ASK_LOCATION'' \<and>
   \<not> contains (answer_text (Plain ''Location: Chennai\<newline>Analysis: flood risk'')) ''ASK_ANALYSIS'' \<and>
   parse_answer (answer_text (Plain ''Location: Chennai\<newline>Analysis: flood risk'')) =
     Inr (Some ''Chennai'', Some ''flood risk'') \<and>
   geo_query_node
       (scripted_env (Inr ''query'') (Inr ''Location: Chennai\<newline>Analysis: flood risk'')
          (Inr None))
       (fresh_state ''Is Chennai flood prone?'') =
     ([Geo_chain (Some ''Is Chennai flood prone?'')],
      Inr ((fresh_state ''Is Chennai flood prone?'')
            \<lparr>location := stored (Some ''Chennai''), analysis := stored (Some ''flood risk'')\<rparr>))"
proof -
  let ?ans = "''Location: Chennai\<newline>Analysis: flood risk''"
  let ?E = "scripted_env (Inr ''query'') (Inr ?ans) (Inr None)"
  let ?s = "fresh_state ''Is Chennai flood prone?''"
  have a1: "split ?ans (CHR ''\<newline>'') = [] @ ''Location: Chennai'' # [''Analysis: flood risk'']"
    by code_simp
  have a2: "is_location_line ''Location: Chennai''" by code_simp
  have a3: "label_rest ''Location: Chennai'' \<noteq> []" by code_simp
  have a4: "\<not> is_location_line ''Analysis: flood risk''" by code_simp
  then have a4': "\<forall>r \<in> set [''Analysis: flood risk'']. \<not> is_location_line r" by simp
  have b1: "split ?ans (CHR ''\<newline>'') = [''Location: Chennai''] @ ''Analysis: flood risk'' # []"
    by code_simp
  have b2: "is_analysis_line ''Analysis: flood risk''" by code_simp
  have b3: "\<forall>r \<in> set []. \<not> is_analysis_line r" by simp
  have c1: "split ''\<newline>Chennai\<newline>flood risk'' (CHR ''\<newline>'') = [''''] @ ''Chennai'' # [''flood risk'']"
    by code_simp
  have c2: "\<not> is_location_line []" "\<not> is_bare_line []" by code_simp+
  then have c2': "\<forall>r \<in> set ['''']. \<not> is_location_line r \<and> \<not> is_bare_line r" by simp
  have c3: "is_bare_line ''Chennai''" by code_simp
  have c4: "\<not> is_location_line ''flood risk''" by code_simp
  then have c4': "\<forall>r \<in> set [''flood risk'']. \<not> is_location_line r" by simp
  have d1: "subscript (input ?s) ''input'' = Inr (Some ''Is Chennai flood prone?'')"
    by (simp add: fresh_state_def)
  have d2: "geo_chain ?E (Some ''Is Chennai flood prone?'') = Inr (Plain ?ans)"
    by (simp add: scripted_env_def)
  have d3: "\<not> contains (answer_text (Plain ?ans)) ''ASK_LOCATION''" by code_simp
  have d4: "\<not> contains (answer_text (Plain ?ans)) ''ASK_ANALYSIS''" by code_simp
  have d5: "parse_answer (answer_text (Plain ?ans)) = Inr (Some ''Chennai'', Some ''flood risk'')"
    by code_simp
  from line_scanner [of ?ans "[]" "''Location: Chennai''" "[''Analysis: flood risk'']"]
    a1 a2 a3 a4'
  have 1: "\<exists>a. parse_answer ?ans = Inr (Some (label_rest ''Location: Chennai''), a)"
    by blast
  from line_scanner [of ?ans "[''Location: Chennai'']" "''Analysis: flood risk''" "[]"]
    b1 b2 b3
  have 2: "\<exists>l. parse_answer ?ans = Inr (l, Some (label_rest ''Analysis: flood risk''))"
    by blast
  from line_scanner [of "''\<newline>Chennai\<newline>flood risk''" "['''']" "''Chennai''" "[''flood risk'']"]
    c1 c2' c3 c4'
  have 3: "\<exists>a. parse_answer ''\<newline>Chennai\<newline>flood risk'' = Inr (Some (strip ''Chennai''), a)"
    by blast
  from line_scanner [of ?ans "[]" "[]" "[]" ?s "Some ''Is Chennai flood prone?''" ?E
      "Plain ?ans" "Some ''Chennai''" "Some ''flood risk''"]
    d1 d2 d3 d4 d5
  have 4: "geo_query_node ?E ?s =
     ([Geo_chain (Some ''Is Chennai flood prone?'')],
      Inr (?s\<lparr>location := stored (Some ''Chennai''), analysis := stored (Some ''flood risk'')\<rparr>))"
    by blast
  from a1 a2 a3 a4 1 b1 b2 2 c1 c2 c3 c4 3 d1 d2 d3 d4 d5 4 show ?thesis by blast
qed

subsection \<open>A statistics result without a depth\<close>

text \<open>
  C10, as the code has it. When the map and its layers are built, the zonal statistics
  come back without the key \<^verbatim>\<open>depth\<close>, and the map can be centred,
  \<^verbatim>\<open>flood_vulnerability\<close> takes 0 as the flood depth and returns the narrative below:
  risk level Low, the depth index rendered from 0, and the recommendation of the Low
  tier; nothing in it says that the statistic was missing.
\<close>

theorem missing_depth_reads_as_low:
  assumes "new_map E x y = Inr m" and "add_layers E m = Inr ml"
    and "reduce_region E x y = Inr stats" and "stats ''depth'' = None"
    and "center_object E ml = Inr mc"
  shows "flood_vulnerability E x y name =
           Inr (
             ''\<newline>            ## Flood Hazard Assessment for '' @
             name_or_default name @
             ''\<newline>            **Coordinates:** '' @
             fixed E 4 x @ '', '' @ fixed E 4 y @
             ''\<newline>            **Flood Risk Level:** Low\<newline>            **Flood Depth Index (0-1):** '' @
             fixed E 2 0 @
             ''\<newline>            \<newline>            ### Key Findings:\<newline>            - Blue areas indicate potential flood hazard zones (0-1m depth)\<newline>            - Darker blue shows higher flood risk areas\<newline>            - Elevation data provides additional context\<newline>            \<newline>            ### Recommendations:\<newline>            This area has low flood risk, but stay informed about local conditions.\<newline>            - Monitor local flood warnings and advisories\<newline>            - Consult local authorities for detailed flood risk information\<newline>            - Consider flood insurance if available in your area\<newline>            '',
                Some mc)"
  using assms
  by (simp add: flood_vulnerability_def flood_analysis_def risk_level_def
      low_recommendation_def analysis_text_def)

theorem missing_depth_reads_as_low_counterexample:
  "map_of [(''depth'', NoData)] ''depth'' = Some NoData \<and>
   flood_vulnerability (with_platform offline_env [(''depth'', NoData)])
       13.0827 80.2707 (Some ''Chennai'') =
     Inr (''Basic map for ('' @
          repr (with_platform offline_env [(''depth'', NoData)]) 13.0827 @ '', '' @
          repr (with_platform offline_env [(''depth'', NoData)]) 80.2707 @
          ''). Error in flood analysis: '' @ str_exn (not_supported ''NoneType''),
          Some [None, None, Some ''tiles/flood'', Some ''tiles/elevation'',
                Some ''tiles/point''])"
  by code_simp

theorem missing_depth_reads_as_low_witness:
  "new_map (with_platform offline_env [(''elevation'', Num 6.7)]) 13.0827 80.2707 = Inr [None, None] \<and>
   add_layers (with_platform offline_env [(''elevation'', Num 6.7)]) [None, None] =
     Inr [None, None, Some ''tiles/flood'', Some ''tiles/elevation'', Some ''tiles/point''] \<and>
   reduce_region (with_platform offline_env [(''elevation'', Num 6.7)]) 13.0827 80.2707 = Inr (map_of [(''elevation'', Num 6.7)]) \<and>
   map_of [(''elevation'', Num 6.7)] ''depth'' = None \<and>
   center_object (with_platform offline_env [(''elevation'', Num 6.7)])
       [None, None, Some ''tiles/flood'', Some ''tiles/elevation'', Some ''tiles/point''] =
     Inr [None, None, Some ''tiles/flood'', Some ''tiles/elevation'', Some ''tiles/point''] \<and>
   flood_vulnerability (with_platform offline_env [(''elevation'', Num 6.7)]) 13.0827 80.2707 (Some ''Chennai'') =
     Inr (
       ''\<newline>            ## Flood Hazard Assessment for '' @
       name_or_default (Some ''Chennai'') @
       ''\<newline>            **Coordinates:** '' @
       fixed (with_platform offline_env [(''elevation'', Num 6.7)]) 4 13.0827 @ '', '' @ fixed (with_platform offline_env [(''elevation'', Num 6.7)]) 4 80.2707 @
       ''\<newline>            **Flood Risk Level:** Low\<newline>            **Flood Depth Index (0-1):** '' @
       fixed (with_platform offline_env [(''elevation'', Num 6.7)]) 2 0 @
       ''\<newline>            \<newline>            ### Key Findings:\<newline>            - Blue areas indicate potential flood hazard zones (0-1m depth)\<newline>            - Darker blue shows higher flood risk areas\<newline>            - Elevation data provides additional context\<newline>            \<newline>            ### Recommendations:\<newline>            This area has low flood risk, but stay informed about local conditions.\<newline>            - Monitor local flood warnings and advisories\<newline>            - Consult local authorities for detailed flood risk information\<newline>            - Consider flood insurance if available in your area\<newline>            '',
          Some [None, None, Some ''tiles/flood'', Some ''tiles/elevation'', Some ''tiles/point''])"
proof -
  let ?E = "with_platform offline_env [(''elevation'', Num 6.7)]"
  let ?m = "[None, None, Some ''tiles/flood'', Some ''tiles/elevation'', Some ''tiles/point'']"
  have h1: "new_map ?E 13.0827 80.2707 = Inr [None, None]"
    by (simp add: with_platform_def)
  have h2: "add_layers ?E [None, None] = Inr ?m"
    by (simp add: with_platform_def)
  have h3: "reduce_region ?E 13.0827 80.2707 = Inr (map_of [(''elevation'', Num 6.7)])"
    by (simp add: with_platform_def)
  have h4: "map_of [(''elevation'', Num 6.7)] ''depth'' = None" by simp
  have h5: "center_object ?E ?m = Inr ?m"
    by (simp add: with_platform_def)
  note r = missing_depth_reads_as_low [OF h1 h2 h3 h4 h5, of "Some ''Chennai''"]
  from h1 h2 h3 h4 h5 r show ?thesis by (intro conjI) assumption+
qed

subsection \<open>The location resolver\<close>

text \<open>
  C7. \<^verbatim>\<open>location_helper_node\<close> never raises. When the geocoder finds no match or
  raises, the node returns the state it was given, every field as it was, so coordinates
  that were absent stay absent; without a location it does not call the geocoder at all.
  When the geocoder finds the place, queried as the location text followed by
  \<^verbatim>\<open>", India"\<close>, the node sets \<^verbatim>\<open>lat\<close> and \<^verbatim>\<open>lon\<close> to the coordinates found.
\<close>

theorem location_helper_outcomes:
  "(\<exists>cs state'. location_helper_node E state = (cs, Inr state')) \<and>
   (geocode E (name @ '', India'') = Inr None \<or> geocode E (name @ '', India'') = Inl e \<longrightarrow>
      get (location state) = Some name \<longrightarrow>
      (\<exists>cs. location_helper_node E state = (cs, Inr state))) \<and>
   (not_text (get (location state)) \<longrightarrow> location_helper_node E state = ([], Inr state)) \<and>
   (geocode E (name @ '', India'') = Inr None \<or> geocode E (name @ '', India'') = Inl e \<longrightarrow>
      get (location state) = Some name \<longrightarrow>
      get (lat state) = None \<and> get (lon state) = None \<longrightarrow>
      (\<exists>cs state'. location_helper_node E state = (cs, Inr state') \<and>
         get (lat state') = None \<and> get (lon state') = None)) \<and>
   (get (location state) = Some name \<longrightarrow> name \<noteq> [] \<longrightarrow>
      geocode E (name @ '', India'') = Inr (Some (x, y)) \<longrightarrow>
      location_helper_node E state =
        ([Geocode (name @ '', India'')], Inr (state\<lparr>lat := Val x, lon := Val y\<rparr>)))"
  by (auto simp: location_helper_node_def split: option.splits sum.splits)

theorem location_helper_outcomes_witness:
  "geocode (scripted_env (Inr ''query'') (Inr ''Location: Atlantis'') (Inr None)) (''Atlantis'' @ '', India'') = Inr None \<and>
   get (location ((fresh_state ''Is Atlantis flood prone?'')\<lparr>location := Val ''Atlantis''\<rparr>)) =
     Some ''Atlantis'' \<and>
   get (lat ((fresh_state ''Is Atlantis flood prone?'')\<lparr>location := Val ''Atlantis''\<rparr>)) = None \<and>
   get (lon ((fresh_state ''Is Atlantis flood prone?'')\<lparr>location := Val ''Atlantis''\<rparr>)) = None \<and>
   not_text (get (location (fresh_state ''Is it flood prone?''))) \<and>
   (\<exists>cs. location_helper_node (scripted_env (Inr ''query'') (Inr ''Location: Atlantis'') (Inr None))
           ((fresh_state ''Is Atlantis flood prone?'')\<lparr>location := Val ''Atlantis''\<rparr>) =
         (cs, Inr ((fresh_state ''Is Atlantis flood prone?'')\<lparr>location := Val ''Atlantis''\<rparr>))) \<and>
   location_helper_node (scripted_env (Inr ''query'') (Inr ''ASK_LOCATION'') (Inr None))
       (fresh_state ''Is it flood prone?'') =
     ([], Inr (fresh_state ''Is it flood prone?'')) \<and>
   geocode (scripted_env (Inr ''query'') (Inr ''Location: Chennai'') (Inr (Some (13.0827, 80.2707))))
       (''Chennai'' @ '', India'') = Inr (Some (13.0827, 80.2707)) \<and>
   location_helper_node (scripted_env (Inr ''query'') (Inr ''Location: Chennai'') (Inr (Some (13.0827, 80.2707))))
       ((fresh_state ''Is Chennai flood prone?'')\<lparr>location := Val ''Chennai''\<rparr>) =
     ([Geocode (''Chennai'' @ '', India'')],
      Inr ((fresh_state ''Is Chennai flood prone?'')
            \<lparr>location := Val ''Chennai'', lat := Val 13.0827, lon := Val 80.2707\<rparr>))"
proof -
  let ?E = "scripted_env (Inr ''query'') (Inr ''Location: Atlantis'') (Inr None)"
  let ?s = "(fresh_state ''Is Atlantis flood prone?'')\<lparr>location := Val ''Atlantis''\<rparr>"
  let ?E' = "scripted_env (Inr ''query'') (Inr ''Location: Chennai'') (Inr (Some (13.0827, 80.2707)))"
  let ?s' = "(fresh_state ''Is Chennai flood prone?'')\<lparr>location := Val ''Chennai''\<rparr>"
  have g: "geocode ?E (''Atlantis'' @ '', India'') = Inr None"
    by (simp add: scripted_env_def)
  have l: "get (location ?s) = Some ''Atlantis''" by simp
  have c: "get (lat ?s) = None" "get (lon ?s) = None" by (simp_all add: fresh_state_def)
  have n: "not_text (get (location (fresh_state ''Is it flood prone?'')))"
    by (simp add: fresh_state_def)
  have g': "geocode ?E' (''Chennai'' @ '', India'') = Inr (Some (13.0827, 80.2707))"
    by (simp add: scripted_env_def)
  have l': "get (location ?s') = Some ''Chennai''" by simp
  note a = location_helper_outcomes [of ?E ?s "''Atlantis''" undefined 0 0]
  note b = location_helper_outcomes
    [of "scripted_env (Inr ''query'') (Inr ''ASK_LOCATION'') (Inr None)" "fresh_state ''Is it flood prone?''"
      "[]" undefined 0 0]
  note d = location_helper_outcomes [of ?E' ?s' "''Chennai''" undefined "13.0827" "80.2707"]
  from a g l have 1: "\<exists>cs. location_helper_node ?E ?s = (cs, Inr ?s)" by blast
  from b n have 2: "location_helper_node (scripted_env (Inr ''query'') (Inr ''ASK_LOCATION'') (Inr None))
       (fresh_state ''Is it flood prone?'') = ([], Inr (fresh_state ''Is it flood prone?''))"
    by blast
  from d g' l' have 3: "location_helper_node ?E' ?s' =
      ([Geocode (''Chennai'' @ '', India'')], Inr (?s'\<lparr>lat := Val 13.0827, lon := Val 80.2707\<rparr>))"
    by simp
  from g l c n 1 2 g' 3 show ?thesis by simp
qed

end
